theory Spec2Isabelle
  imports
    Complex_Main
    "HOL-Library.Product_Lexorder"
    "HOL-Library.Char_ord"
    "HOL-Library.List_Lexorder"
    "HOL-Library.Multiset"
begin

section \<open>Numbers, errors and rows\<close>

text \<open>
  The Python sources compute with floats. A finite float is modelled by the real number it
  stands for (rounding is not modelled); the special values \<open>inf\<close> and \<open>nan\<close> are modelled
  separately where the code can produce them (see \<open>cost\<close> and \<open>npfloat\<close> below).

  An exception is a value of \<open>py_error\<close>; a function that can raise returns
  \<open>py_error + 'a\<close> with \<open>Inl\<close> for the exception.
\<close>

datatype py_error = KeyError | ZeroDivisionError

text \<open>\<open>a / b\<close> on Python floats raises \<open>ZeroDivisionError\<close> when \<open>b\<close> is zero.\<close>

definition py_div :: "real \<Rightarrow> real \<Rightarrow> py_error + real" where
  "py_div a b = (if b = 0 then Inl ZeroDivisionError else Inr (a / b))"

text \<open>\<open>d.get(key, default)\<close>: the stored value, or the default when the key is absent.\<close>

definition get_or :: "'a option \<Rightarrow> 'a \<Rightarrow> 'a" where
  "get_or v dflt = (case v of None \<Rightarrow> dflt | Some x \<Rightarrow> x)"

text \<open>
  Where the code computes with numpy scalars (the cells of a row taken with \<open>.iloc[0]\<close>,
  the results of \<open>np.mean\<close>), a division by zero or the mean of an empty list does not
  raise but yields \<open>inf\<close>, \<open>-inf\<close> or \<open>nan\<close> (with a warning). A numpy float is a real
  number or one of these three values; the operations follow IEEE 754 on the special
  values (rounding, overflow and the sign of zero are not modelled: a zero divisor counts
  as \<open>+0\<close>).
\<close>

datatype npfloat = Num real | PosInf | NegInf | NaN

fun np_neg :: "npfloat \<Rightarrow> npfloat" where
  "np_neg (Num a) = Num (- a)"
| "np_neg PosInf = NegInf"
| "np_neg NegInf = PosInf"
| "np_neg NaN = NaN"

fun np_add :: "npfloat \<Rightarrow> npfloat \<Rightarrow> npfloat" where
  "np_add NaN y = NaN"
| "np_add x NaN = NaN"
| "np_add (Num a) (Num b) = Num (a + b)"
| "np_add PosInf NegInf = NaN"
| "np_add NegInf PosInf = NaN"
| "np_add PosInf y = PosInf"
| "np_add NegInf y = NegInf"
| "np_add (Num a) y = y"

definition np_sub :: "npfloat \<Rightarrow> npfloat \<Rightarrow> npfloat" where
  "np_sub x y = np_add x (np_neg y)"

fun np_mul :: "npfloat \<Rightarrow> npfloat \<Rightarrow> npfloat" where
  "np_mul NaN y = NaN"
| "np_mul x NaN = NaN"
| "np_mul (Num a) (Num b) = Num (a * b)"
| "np_mul (Num a) y = (if a = 0 then NaN else if 0 < a then y else np_neg y)"
| "np_mul x (Num b) = (if b = 0 then NaN else if 0 < b then x else np_neg x)"
| "np_mul PosInf y = y"
| "np_mul NegInf y = np_neg y"

fun np_div :: "npfloat \<Rightarrow> npfloat \<Rightarrow> npfloat" where
  "np_div NaN y = NaN"
| "np_div x NaN = NaN"
| "np_div (Num a) (Num b) =
     (if b = 0 then (if a = 0 then NaN else if 0 < a then PosInf else NegInf)
      else Num (a / b))"
| "np_div (Num a) y = Num 0"
| "np_div x (Num b) = (if 0 \<le> b then x else np_neg x)"
| "np_div x y = NaN"

text \<open>\<open>x > y\<close>; every comparison with \<open>nan\<close> is false.\<close>

fun np_gt :: "npfloat \<Rightarrow> npfloat \<Rightarrow> bool" where
  "np_gt NaN y = False"
| "np_gt x NaN = False"
| "np_gt (Num a) (Num b) = (b < a)"
| "np_gt PosInf y = (y \<noteq> PosInf)"
| "np_gt x NegInf = (x \<noteq> NegInf)"
| "np_gt x y = False"

text \<open>
  A row of the segment table (\<open>enlace\<close>, a \<open>pd.Series\<close>). The columns read with
  \<open>enlace['...']\<close> (\<open>A\<close>, \<open>B\<close>, \<open>longitud\<close>) are the ones every segment table carries and
  are plain fields; the columns read with \<open>enlace.get('...', default)\<close> may be absent
  (\<open>None\<close>). The type \<open>'n\<close> is the type of node identifiers.
\<close>

record 'n enlace =
  col_A :: 'n
  col_B :: 'n
  longitud :: real
  tipo_infraestructura :: "int option"
  pendiente :: "real option"
  volumen_vehicular :: "real option"
  velocidad_vehicular :: "real option"

section \<open>Impedance, network-preprocessing variant (helper\_functions.py)\<close>

record ConfiguracionOptimizacion =
  coeficiente_seguridad :: real
  coeficiente_pendiente :: real
  coeficiente_trafico :: real
  coeficiente_velocidad :: real
  velocidad_promedio_bicicleta :: real
  umbral_caminata :: real
  velocidad_caminata :: real

text \<open>The defaults of the dataclass.\<close>

definition config_por_defecto :: ConfiguracionOptimizacion where
  "config_por_defecto =
     \<lparr>coeficiente_seguridad = 0.3, coeficiente_pendiente = 0.05,
      coeficiente_trafico = 0.0001, coeficiente_velocidad = 0.01,
      velocidad_promedio_bicicleta = 15, umbral_caminata = 500, velocidad_caminata = 5\<rparr>"

text \<open>\<open>_obtener_factor_seguridad\<close>: \<open>factores.get(tipo_infra, 0.6)\<close> on a fixed table.\<close>

definition factores :: "(int \<times> real) list" where
  "factores = [(1, 0.1), (2, 0.3), (3, 0.6), (4, 0.9)]"

definition obtener_factor_seguridad :: "int \<Rightarrow> real" where
  "obtener_factor_seguridad tipo_infra = get_or (map_of factores tipo_infra) 0.6"

text \<open>\<open>_calcular_impedancia_multicriterio\<close>.\<close>

definition calcular_impedancia_multicriterio ::
  "ConfiguracionOptimizacion \<Rightarrow> 'n enlace \<Rightarrow> py_error + real" where
  "calcular_impedancia_multicriterio config enlace =
     (let distancia_km = longitud enlace / 1000 in
      case py_div distancia_km (velocidad_promedio_bicicleta config) of
        Inl e \<Rightarrow> Inl e
      | Inr q \<Rightarrow>
          let tiempo_base = q * 60;
              factor_seguridad =
                obtener_factor_seguridad (get_or (tipo_infraestructura enlace) 3);
              factor_pendiente =
                coeficiente_pendiente config * \<bar>get_or (pendiente enlace) 0\<bar>;
              factor_trafico =
                coeficiente_trafico config * get_or (volumen_vehicular enlace) 0;
              factor_velocidad =
                coeficiente_velocidad config
                  * max 0 (get_or (velocidad_vehicular enlace) 0 - 30);
              factores_totales =
                factor_seguridad + factor_pendiente + factor_trafico + factor_velocidad
          in Inr (tiempo_base * (1 + factores_totales)))"

section \<open>Impedance, route-search variant (raptor\_routing.py)\<close>

text \<open>
  Of \<open>ConfiguracionRuteoCiclovias\<close> only the two speeds enter the computations modelled
  here; the departure times, transfer limits and output paths are left out.
\<close>

record ConfiguracionRuteoCiclovias =
  velocidad_bicicleta :: real
  velocidad_caminata_ruteo :: real

definition config_ruteo_por_defecto :: ConfiguracionRuteoCiclovias where
  "config_ruteo_por_defecto = \<lparr>velocidad_bicicleta = 15, velocidad_caminata_ruteo = 5\<rparr>"

text \<open>\<open>_calcular_impedancia_segmento\<close>: the signed adjustment by an \<open>if\<close>/\<open>elif\<close> chain.\<close>

definition calcular_impedancia_segmento ::
  "ConfiguracionRuteoCiclovias \<Rightarrow> 'n enlace \<Rightarrow> py_error + real" where
  "calcular_impedancia_segmento config enlace =
     (let distancia_km = longitud enlace / 1000 in
      case py_div distancia_km (velocidad_bicicleta config) of
        Inl e \<Rightarrow> Inl e
      | Inr q \<Rightarrow>
          let tiempo_base = q * 60;
              tipo_infra = get_or (tipo_infraestructura enlace) 3;
              factores_ajuste1 =
                (if tipo_infra = 1 then 0 + (-0.3)
                 else if tipo_infra = 2 then 0 + (-0.1)
                 else if tipo_infra = 3 then 0 + 0.3
                 else 0 + 0.6);
              factores_ajuste2 = factores_ajuste1 + 0.05 * \<bar>get_or (pendiente enlace) 0\<bar>;
              factores_ajuste3 =
                factores_ajuste2 + 0.0001 * get_or (volumen_vehicular enlace) 0;
              velocidad = max 0 (get_or (velocidad_vehicular enlace) 30 - 30);
              factores_ajuste4 = factores_ajuste3 + 0.01 * velocidad
          in Inr (tiempo_base * (1 + factores_ajuste4)))"

section \<open>The weighted graph and the priority queue\<close>

text \<open>
  A tentative distance or an edge weight is a float that is finite or \<open>float('inf')\<close>
  (\<open>PInf\<close>). Python's \<open><\<close> and \<open>+\<close> on such floats are the order and the addition
  below; \<open>nan\<close> and \<open>-inf\<close> are not values of this type.
\<close>

datatype cost = Fin real | PInf

instantiation cost :: "{zero, plus, linorder}"
begin

definition zero_cost :: cost where
  "zero_cost = Fin 0"

fun plus_cost :: "cost \<Rightarrow> cost \<Rightarrow> cost" where
  "plus_cost (Fin a) (Fin b) = Fin (a + b)"
| "plus_cost _ _ = PInf"

fun less_eq_cost :: "cost \<Rightarrow> cost \<Rightarrow> bool" where
  "less_eq_cost (Fin a) (Fin b) = (a \<le> b)"
| "less_eq_cost PInf (Fin b) = False"
| "less_eq_cost _ PInf = True"

definition less_cost :: "cost \<Rightarrow> cost \<Rightarrow> bool" where
  "less_cost x y = (x \<le> y \<and> \<not> y \<le> x)"

instance
proof
  fix x y z :: cost
  show "(x < y) = (x \<le> y \<and> \<not> y \<le> x)" by (simp add: less_cost_def)
  show "x \<le> x" by (cases x) auto
  show "x \<le> y \<Longrightarrow> y \<le> z \<Longrightarrow> x \<le> z" by (cases x; cases y; cases z) auto
  show "x \<le> y \<Longrightarrow> y \<le> x \<Longrightarrow> x = y" by (cases x; cases y) auto
  show "x \<le> y \<or> y \<le> x" by (cases x; cases y) auto
qed

end

text \<open>
  The networkx \<open>DiGraph\<close> held in \<open>self.grafo_ciclista\<close> is built by \<open>create_bike_graph\<close>,
  which is not among the sources; the graph is therefore an input. It is modelled as
  networkx stores it: an insertion-ordered dictionary from each node to the
  insertion-ordered dictionary of its successors with their attribute dictionaries, here
  association lists. \<open>G.nodes\<close> is the list of keys, \<open>G[u]\<close> is \<open>map_of g u\<close> (a
  \<open>KeyError\<close> when absent). Of the edge attributes the code reads \<open>weight\<close> and
  \<open>length\<close>, both with \<open>.get\<close>.
\<close>

record atributos =
  attr_weight :: "cost option"
  attr_length :: "real option"

type_synonym 'n grafo = "('n \<times> ('n \<times> atributos) list) list"

definition nodos :: "('n \<times> 'a) list \<Rightarrow> 'n list" where
  "nodos g = map fst g"

text \<open>\<open>G.has_edge(a, b)\<close>: \<open>b\<close> is a key of \<open>G[a]\<close>; \<open>False\<close> when \<open>a\<close> is not a node.\<close>

definition has_edge :: "'n grafo \<Rightarrow> 'n \<Rightarrow> 'n \<Rightarrow> bool" where
  "has_edge g a b =
     (case map_of g a of None \<Rightarrow> False | Some vecinos \<Rightarrow> map_of vecinos b \<noteq> None)"

text \<open>
  \<open>heapq\<close> on a list of tuples \<open>(distance, node)\<close>. \<open>heappop\<close> returns the least tuple, and
  Python compares tuples lexicographically: first the distances, then, when these are
  equal, the node identifiers. The layout of the binary heap inside the list does not
  influence which tuple is least, so the queue is kept as the list of its entries in the
  order they were pushed, and \<open>heappop\<close> removes the least entry. The node type \<open>'n\<close> is
  one totally ordered Python type (all \<open>int\<close> or all \<open>str\<close>).
\<close>

definition heappush :: "'a list \<Rightarrow> 'a \<Rightarrow> 'a list" where
  "heappush q x = q @ [x]"

definition heappop :: "('a::linorder) list \<Rightarrow> 'a \<times> 'a list" where
  "heappop q = (let m = Min (set q) in (m, remove1 m q))"

section \<open>Dijkstra search (helper\_functions.py)\<close>

text \<open>The three mutable locals of \<open>_dijkstra_ciclista\<close>.\<close>

record 'n estado =
  distancias :: "'n \<rightharpoonup> cost"
  predecesores :: "'n \<rightharpoonup> 'n option"
  cola_prioridad :: "(cost \<times> 'n) list"

text \<open>
  Both dictionaries are initialised over \<open>G.nodes\<close>; \<open>distancias[origen] = 0\<close> then adds
  the origin even if it is not a node.
\<close>

definition estado_inicial :: "'n grafo \<Rightarrow> 'n \<Rightarrow> 'n estado" where
  "estado_inicial g origen =
     \<lparr>distancias = (\<lambda>nodo. if nodo \<in> set (nodos g) then Some PInf else None)(origen \<mapsto> 0),
      predecesores = (\<lambda>nodo. if nodo \<in> set (nodos g) then Some None else None),
      cola_prioridad = [(0, origen)]\<rparr>"

text \<open>The \<open>for vecino, atributos in G[nodo_actual].items()\<close> loop.\<close>

fun relajar_vecinos ::
  "cost \<Rightarrow> 'n \<Rightarrow> ('n \<times> atributos) list \<Rightarrow> 'n estado \<Rightarrow> py_error + 'n estado" where
  "relajar_vecinos distancia_actual nodo_actual [] s = Inr s"
| "relajar_vecinos distancia_actual nodo_actual ((vecino, atr) # resto) s =
     (let peso = get_or (attr_weight atr) PInf;
          nueva_distancia = distancia_actual + peso
      in case distancias s vecino of
           None \<Rightarrow> Inl KeyError
         | Some dv \<Rightarrow>
             if nueva_distancia < dv
             then relajar_vecinos distancia_actual nodo_actual resto
                    (s\<lparr>distancias := (distancias s)(vecino \<mapsto> nueva_distancia),
                       predecesores := (predecesores s)(vecino \<mapsto> Some nodo_actual),
                       cola_prioridad :=
                         heappush (cola_prioridad s) (nueva_distancia, vecino)\<rparr>)
             else relajar_vecinos distancia_actual nodo_actual resto s)"

text \<open>
  The \<open>while cola_prioridad\<close> loop. It need not terminate on every graph (a cycle of
  negative total weight is relaxed for ever), so it is a partial function: \<open>None\<close> means
  that the loop does not return.
\<close>

partial_function (option) bucle_dijkstra ::
  "('n::linorder) grafo \<Rightarrow> 'n \<Rightarrow> 'n estado \<Rightarrow> (py_error + 'n estado) option" where
  "bucle_dijkstra g destino s =
     (if cola_prioridad s = [] then Some (Inr s)
      else
        let (tope, cola) = heappop (cola_prioridad s);
            distancia_actual = fst tope;
            nodo_actual = snd tope;
            s1 = s\<lparr>cola_prioridad := cola\<rparr>
        in if nodo_actual = destino then Some (Inr s1)
           else case distancias s1 nodo_actual of
                  None \<Rightarrow> Some (Inl KeyError)
                | Some d \<Rightarrow>
                    if distancia_actual > d then bucle_dijkstra g destino s1
                    else case map_of g nodo_actual of
                           None \<Rightarrow> Some (Inl KeyError)
                         | Some vecinos \<Rightarrow>
                             (case relajar_vecinos distancia_actual nodo_actual vecinos s1 of
                                Inl e \<Rightarrow> Some (Inl e)
                              | Inr s2 \<Rightarrow> bucle_dijkstra g destino s2))"

declare bucle_dijkstra.simps [code]

text \<open>
  \<open>_reconstruir_ruta\<close>: follow \<open>predecesores.get(actual)\<close> until it is \<open>None\<close> (a missing
  key and a stored \<open>None\<close> alike), then reverse. The walk does not return when the
  predecessors form a cycle.
\<close>

partial_function (option) seguir_predecesores ::
  "('n \<rightharpoonup> 'n option) \<Rightarrow> 'n option \<Rightarrow> 'n list \<Rightarrow> 'n list option" where
  "seguir_predecesores preds actual ruta =
     (case actual of
        None \<Rightarrow> Some ruta
      | Some a \<Rightarrow> seguir_predecesores preds (get_or (preds a) None) (ruta @ [a]))"

declare seguir_predecesores.simps [code]

definition reconstruir_ruta :: "('n \<rightharpoonup> 'n option) \<Rightarrow> 'n \<Rightarrow> 'n list option" where
  "reconstruir_ruta preds destino =
     map_option rev (seguir_predecesores preds (Some destino) [])"

text \<open>
  \<open>_dijkstra_ciclista\<close>: the route and \<open>distancias.get(destino, float('inf'))\<close>.
  \<open>None\<close>: the call does not return; \<open>Some (Inl e)\<close>: it raises \<open>e\<close>.
\<close>

definition dijkstra_ciclista ::
  "('n::linorder) grafo \<Rightarrow> 'n \<Rightarrow> 'n \<Rightarrow> (py_error + 'n list \<times> cost) option" where
  "dijkstra_ciclista g origen destino =
     (case bucle_dijkstra g destino (estado_inicial g origen) of
        None \<Rightarrow> None
      | Some (Inl e) \<Rightarrow> Some (Inl e)
      | Some (Inr s) \<Rightarrow>
          (case reconstruir_ruta (predecesores s) destino of
             None \<Rightarrow> None
           | Some ruta \<Rightarrow> Some (Inr (ruta, get_or (distancias s destino) PInf))))"

section \<open>Route metrics and the batch loop (helper\_functions.py)\<close>

record 'n segmento =
  nodo_inicio :: 'n
  nodo_fin :: 'n
  impedancia :: cost

record 'n metricas_ruta =
  distancia_total :: real
  num_segmentos :: nat
  segmentos :: "'n segmento list"

text \<open>
  The \<open>for i in range(len(ruta) - 1)\<close> loop of \<open>_calcular_metricas_ruta\<close>, over the
  consecutive pairs of the route, with the accumulators \<open>distancia_total\<close> and
  \<open>segmentos\<close>.
\<close>

fun recorrer_ruta ::
  "'n grafo \<Rightarrow> 'n list \<Rightarrow> real \<times> 'n segmento list \<Rightarrow> real \<times> 'n segmento list" where
  "recorrer_ruta g (nodo_a # nodo_b # resto) (distancia, segs) =
     (if has_edge g nodo_a nodo_b
      then (case map_of (get_or (map_of g nodo_a) []) nodo_b of
              None \<Rightarrow> recorrer_ruta g (nodo_b # resto) (distancia, segs)
            | Some edge_data \<Rightarrow>
                recorrer_ruta g (nodo_b # resto)
                  (distancia + get_or (attr_length edge_data) 0,
                   segs @ [\<lparr>nodo_inicio = nodo_a, nodo_fin = nodo_b,
                            impedancia = get_or (attr_weight edge_data) 0\<rparr>]))
      else recorrer_ruta g (nodo_b # resto) (distancia, segs))"
| "recorrer_ruta g [nodo] acc = acc"
| "recorrer_ruta g [] acc = acc"

text \<open>\<open>_calcular_metricas_ruta\<close>; \<open>None\<close> is the empty dictionary \<open>{}\<close>.\<close>

definition calcular_metricas_ruta :: "'n grafo \<Rightarrow> 'n list \<Rightarrow> 'n metricas_ruta option" where
  "calcular_metricas_ruta g ruta =
     (if length ruta < 2 then None
      else let (distancia, segs) = recorrer_ruta g ruta (0, [])
           in Some \<lparr>distancia_total = distancia, num_segmentos = length segs, segmentos = segs\<rparr>)"

text \<open>
  A node identifier as the snapping collaborator delivers it: an \<open>int\<close> or a \<open>str\<close>.
  \<open>py_not\<close> is Python's \<open>not x\<close> on the result of \<open>dict.get\<close>: true for \<open>None\<close>, for the
  integer 0 and for the empty string.

  Python refuses to order an \<open>int\<close> against a \<open>str\<close> (\<open>TypeError\<close>). A graph carries
  identifiers of one kind; the order between the two kinds below only completes the
  linear order that the queue needs and is not consulted on such graphs.
\<close>

datatype py_id = IntId int | StrId string

fun py_not :: "py_id option \<Rightarrow> bool" where
  "py_not None = True"
| "py_not (Some (IntId n)) = (n = 0)"
| "py_not (Some (StrId t)) = (t = [])"

instantiation py_id :: linorder
begin

fun less_eq_py_id :: "py_id \<Rightarrow> py_id \<Rightarrow> bool" where
  "less_eq_py_id (IntId a) (IntId b) = (a \<le> b)"
| "less_eq_py_id (StrId a) (StrId b) = (a \<le> b)"
| "less_eq_py_id (IntId a) (StrId b) = True"
| "less_eq_py_id (StrId a) (IntId b) = False"

definition less_py_id :: "py_id \<Rightarrow> py_id \<Rightarrow> bool" where
  "less_py_id x y = (x \<le> y \<and> \<not> y \<le> x)"

instance
proof
  fix x y z :: py_id
  show "(x < y) = (x \<le> y \<and> \<not> y \<le> x)" by (simp add: less_py_id_def)
  show "x \<le> x" by (cases x) auto
  show "x \<le> y \<Longrightarrow> y \<le> z \<Longrightarrow> x \<le> z" by (cases x; cases y; cases z) auto
  show "x \<le> y \<Longrightarrow> y \<le> x \<Longrightarrow> x = y" by (cases x; cases y) auto
  show "x \<le> y \<or> y \<le> x" by (cases x; cases y) auto
qed

end

record resultado =
  r_origen :: string
  r_destino :: string
  ruta_optima :: "py_id list"
  impedancia_total :: cost
  metricas :: "py_id metricas_ruta option"

text \<open>
  The body of the \<open>for origen, destino in pares_od\<close> loop of
  \<open>ejecutar_optimizacion_rutas\<close>. The outer \<open>option\<close> is \<open>None\<close> when the search does
  not return; the inner one is \<open>None\<close> when the pair is skipped (by \<open>continue\<close>, after
  the warning or in the \<open>except Exception\<close> handler) and otherwise holds the dictionary
  appended to \<open>resultados\<close>.
\<close>

definition optimizar_par ::
  "py_id grafo \<Rightarrow> (string \<rightharpoonup> py_id) \<Rightarrow> string \<times> string \<Rightarrow> resultado option option" where
  "optimizar_par g nodos_snapped par =
     (let origen = fst par; destino = snd par;
          nodo_origen = nodos_snapped origen;
          nodo_destino = nodos_snapped destino
      in if py_not nodo_origen \<or> py_not nodo_destino then Some None
         else case (nodo_origen, nodo_destino) of
                (Some no, Some nd) \<Rightarrow>
                  (case dijkstra_ciclista g no nd of
                     None \<Rightarrow> None
                   | Some (Inl e) \<Rightarrow> Some None
                   | Some (Inr (ruta, imp_total)) \<Rightarrow>
                       Some (Some \<lparr>r_origen = origen, r_destino = destino,
                                   ruta_optima = ruta, impedancia_total = imp_total,
                                   metricas = calcular_metricas_ruta g ruta\<rparr>))
              | _ \<Rightarrow> Some None)"

fun ejecutar_optimizacion_rutas ::
  "py_id grafo \<Rightarrow> (string \<rightharpoonup> py_id) \<Rightarrow> (string \<times> string) list \<Rightarrow> resultado list option"
  where
  "ejecutar_optimizacion_rutas g nodos_snapped [] = Some []"
| "ejecutar_optimizacion_rutas g nodos_snapped (par # pares_od) =
     (case optimizar_par g nodos_snapped par of
        None \<Rightarrow> None
      | Some r \<Rightarrow>
          (case ejecutar_optimizacion_rutas g nodos_snapped pares_od of
             None \<Rightarrow> None
           | Some resultados \<Rightarrow>
               Some ((case r of None \<Rightarrow> [] | Some resultado \<Rightarrow> [resultado]) @ resultados)))"

section \<open>Route search and route metrics (raptor\_routing.py)\<close>

text \<open>
  A dictionary assignment \<open>d[k] = v\<close> on an insertion-ordered dictionary: an existing key
  keeps its place, a new key goes to the end.
\<close>

fun dict_set :: "'k \<Rightarrow> 'v \<Rightarrow> ('k \<times> 'v) list \<Rightarrow> ('k \<times> 'v) list" where
  "dict_set k v [] = [(k, v)]"
| "dict_set k v ((k', v') # resto) =
     (if k' = k then (k, v) # resto else (k', v') # dict_set k v resto)"

text \<open>The four edge attributes that \<open>_crear_grafo_desde_red\<close> stores.\<close>

record pesos =
  peso_distancia :: real
  peso_seguridad :: real
  peso_tiempo :: real
  peso_comodidad :: real

type_synonym 'n grafo_nx = "('n \<times> ('n \<times> pesos) list) list"

text \<open>\<open>DiGraph.add_edge(u, v, **attrs)\<close>: both nodes are added when new; the edge's
  attributes are set.\<close>

definition add_node :: "('n \<times> ('n \<times> 'a) list) list \<Rightarrow> 'n \<Rightarrow> ('n \<times> ('n \<times> 'a) list) list" where
  "add_node g u = (if u \<in> set (nodos g) then g else g @ [(u, [])])"

definition add_edge ::
  "('n \<times> ('n \<times> 'a) list) list \<Rightarrow> 'n \<Rightarrow> 'n \<Rightarrow> 'a \<Rightarrow> ('n \<times> ('n \<times> 'a) list) list" where
  "add_edge g u v attrs =
     map (\<lambda>(x, vecinos). if x = u then (x, dict_set v attrs vecinos) else (x, vecinos))
       (add_node (add_node g u) v)"

definition factores_seguridad :: "(int \<times> real) list" where
  "factores_seguridad = [(1, 1.0), (2, 1.5), (3, 2.5), (4, 4.0)]"

definition calcular_peso_seguridad :: "'n enlace \<Rightarrow> real" where
  "calcular_peso_seguridad enlace =
     (let tipo_infra = get_or (tipo_infraestructura enlace) 3;
          factor_base = get_or (map_of factores_seguridad tipo_infra) 2.5;
          factor_trafico = 1 + (get_or (volumen_vehicular enlace) 0 / 1000) * 0.1;
          factor_velocidad = 1 + max 0 (get_or (velocidad_vehicular enlace) 30 - 30) / 50
      in factor_base * factor_trafico * factor_velocidad)"

definition calcular_peso_comodidad :: "'n enlace \<Rightarrow> real" where
  "calcular_peso_comodidad enlace =
     (let factor_pendiente = 1 + \<bar>get_or (pendiente enlace) 0\<bar> * 0.1;
          factor_superficie = 1.0
      in factor_pendiente * factor_superficie)"

text \<open>\<open>_crear_grafo_desde_red\<close>: the loop over the rows, from the graph built so far.\<close>

fun agregar_enlaces ::
  "ConfiguracionRuteoCiclovias \<Rightarrow> 'n enlace list \<Rightarrow> 'n grafo_nx \<Rightarrow> py_error + 'n grafo_nx"
  where
  "agregar_enlaces config [] grafo = Inr grafo"
| "agregar_enlaces config (enlace # resto) grafo =
     (let nodo_a = col_A enlace;
          nodo_b = col_B enlace;
          p_distancia = longitud enlace / 1000;
          p_seguridad = calcular_peso_seguridad enlace
      in case py_div p_distancia (velocidad_bicicleta config) of
           Inl e \<Rightarrow> Inl e
         | Inr q \<Rightarrow>
             let p_tiempo = q * 60;
                 p_comodidad = calcular_peso_comodidad enlace
             in agregar_enlaces config resto
                  (add_edge grafo nodo_a nodo_b
                     \<lparr>peso_distancia = p_distancia, peso_seguridad = p_seguridad,
                      peso_tiempo = p_tiempo, peso_comodidad = p_comodidad\<rparr>))"

definition crear_grafo_desde_red ::
  "ConfiguracionRuteoCiclovias \<Rightarrow> 'n enlace list \<Rightarrow> py_error + 'n grafo_nx" where
  "crear_grafo_desde_red config red_ciclovias = agregar_enlaces config red_ciclovias []"

text \<open>
  \<open>nx.shortest_path(grafo, origen, destino, weight=criterio)\<close> belongs to networkx; it is
  a parameter \<open>sp\<close> of the functions that call it, returning the path or one of the two
  exceptions that the caller catches.
\<close>

datatype criterio = Distancia | Seguridad | Tiempo | Comodidad

datatype nx_error = NetworkXNoPath | NodeNotFound

type_synonym 'n nx_shortest_path =
  "'n grafo_nx \<Rightarrow> 'n \<Rightarrow> 'n \<Rightarrow> criterio \<Rightarrow> nx_error + 'n list"

definition encontrar_ruta_por_criterio ::
  "'n nx_shortest_path \<Rightarrow> 'n grafo_nx \<Rightarrow> 'n \<Rightarrow> 'n \<Rightarrow> criterio \<Rightarrow> 'n list option" where
  "encontrar_ruta_por_criterio sp grafo origen destino crit =
     (if origen \<in> set (nodos grafo) \<and> destino \<in> set (nodos grafo)
      then (case sp grafo origen destino crit of
              Inl e \<Rightarrow> None
            | Inr ruta \<Rightarrow> Some ruta)
      else None)"

definition criterios_impedancia :: "criterio list" where
  "criterios_impedancia = [Distancia, Seguridad, Tiempo, Comodidad]"

text \<open>\<open>_encontrar_rutas_candidatas\<close>; any exception gives the empty list.\<close>

definition encontrar_rutas_candidatas ::
  "ConfiguracionRuteoCiclovias \<Rightarrow> 'n nx_shortest_path \<Rightarrow> 'n \<Rightarrow> 'n \<Rightarrow> 'n enlace list
     \<Rightarrow> 'n list list" where
  "encontrar_rutas_candidatas config sp origen destino red_ciclovias =
     (case crear_grafo_desde_red config red_ciclovias of
        Inl e \<Rightarrow> []
      | Inr grafo_ciclovias \<Rightarrow>
          fold (\<lambda>crit rutas_candidatas.
                  case encontrar_ruta_por_criterio sp grafo_ciclovias origen destino crit of
                    None \<Rightarrow> rutas_candidatas
                  | Some ruta \<Rightarrow>
                      if ruta \<noteq> [] \<and> ruta \<notin> set rutas_candidatas
                      then rutas_candidatas @ [ruta] else rutas_candidatas)
            criterios_impedancia [])"

text \<open>\<open>_obtener_enlace_entre_nodos\<close>: the first row that joins the two nodes, in either
  direction.\<close>

definition obtener_enlace_entre_nodos :: "'n \<Rightarrow> 'n \<Rightarrow> 'n enlace list \<Rightarrow> 'n enlace option" where
  "obtener_enlace_entre_nodos nodo_i nodo_f red_ciclovias =
     find (\<lambda>e. (col_A e = nodo_i \<and> col_B e = nodo_f) \<or> (col_A e = nodo_f \<and> col_B e = nodo_i))
       red_ciclovias"

text \<open>\<open>_calcular_impedancia_ruta\<close>: the loop over consecutive nodes with its accumulator.\<close>

fun sumar_impedancias ::
  "ConfiguracionRuteoCiclovias \<Rightarrow> 'n enlace list \<Rightarrow> 'n list \<Rightarrow> real \<Rightarrow> py_error + real" where
  "sumar_impedancias config red (nodo_i # nodo_f # resto) imp_acumulada =
     (case obtener_enlace_entre_nodos nodo_i nodo_f red of
        None \<Rightarrow> sumar_impedancias config red (nodo_f # resto) imp_acumulada
      | Some enlace \<Rightarrow>
          (case calcular_impedancia_segmento config enlace of
             Inl e \<Rightarrow> Inl e
           | Inr impedancia_segmento \<Rightarrow>
               sumar_impedancias config red (nodo_f # resto) (imp_acumulada + impedancia_segmento)))"
| "sumar_impedancias config red [nodo] imp_acumulada = Inr imp_acumulada"
| "sumar_impedancias config red [] imp_acumulada = Inr imp_acumulada"

definition calcular_impedancia_ruta ::
  "ConfiguracionRuteoCiclovias \<Rightarrow> 'n list \<Rightarrow> 'n enlace list \<Rightarrow> py_error + real" where
  "calcular_impedancia_ruta config ruta red_ciclovias =
     sumar_impedancias config red_ciclovias ruta 0"

record 'n segmento_r =
  nodo_inicio_r :: 'n
  nodo_fin_r :: 'n
  distancia_r :: real
  tiempo_r :: npfloat
  tipo_infraestructura_r :: int
  pendiente_r :: real

record 'n metricas_r =
  distancia_total_r :: real
  tiempo_total :: npfloat
  num_segmentos_r :: nat
  porcentaje_infra_segura :: real
  segmentos_r :: "'n segmento_r list"

text \<open>
  The loop of \<open>_calcular_metricas_ruta\<close> with its four accumulators
  \<open>(distancia_total, tiempo_total, segmentos, tipos_infraestructura)\<close>. The row \<open>enlace\<close>
  is \<open>enlaces.iloc[0]\<close>, so \<open>enlace['longitud']\<close> is a numpy scalar and the quotient by the
  cycling speed is numpy's: nothing in the loop raises.
\<close>

fun recorrer_ruta_r ::
  "ConfiguracionRuteoCiclovias \<Rightarrow> 'n enlace list \<Rightarrow> 'n list
     \<Rightarrow> real \<times> npfloat \<times> 'n segmento_r list \<times> int list
     \<Rightarrow> real \<times> npfloat \<times> 'n segmento_r list \<times> int list" where
  "recorrer_ruta_r config red (nodo_i # nodo_f # resto) (d_total, t_total, segs, tipos) =
     (case obtener_enlace_entre_nodos nodo_i nodo_f red of
        None \<Rightarrow> recorrer_ruta_r config red (nodo_f # resto) (d_total, t_total, segs, tipos)
      | Some enlace \<Rightarrow>
          let tiempo_segmento =
                np_mul (np_div (Num (longitud enlace / 1000)) (Num (velocidad_bicicleta config)))
                  (Num 60)
          in recorrer_ruta_r config red (nodo_f # resto)
               (d_total + longitud enlace, np_add t_total tiempo_segmento,
                segs @ [\<lparr>nodo_inicio_r = nodo_i, nodo_fin_r = nodo_f,
                         distancia_r = longitud enlace, tiempo_r = tiempo_segmento,
                         tipo_infraestructura_r = get_or (tipo_infraestructura enlace) 3,
                         pendiente_r = get_or (pendiente enlace) 0\<rparr>],
                tipos @ [get_or (tipo_infraestructura enlace) 3]))"
| "recorrer_ruta_r config red [nodo] acc = acc"
| "recorrer_ruta_r config red [] acc = acc"

text \<open>\<open>_calcular_metricas_ruta\<close> of raptor\_routing.py; \<open>None\<close> is the empty dictionary.\<close>

definition calcular_metricas_ruta_r ::
  "ConfiguracionRuteoCiclovias \<Rightarrow> 'n list \<Rightarrow> 'n enlace list \<Rightarrow> 'n metricas_r option"
  where
  "calcular_metricas_ruta_r config ruta red_ciclovias =
     (if length ruta < 2 then None
      else let (d_total, t_total, segs, tipos_infra) =
                 recorrer_ruta_r config red_ciclovias ruta (0, Num 0, [], []);
               infra_segura = filter (\<lambda>tipo. tipo \<in> set [1, 2]) tipos_infra;
               pct_infra_segura =
                 (if tipos_infra \<noteq> []
                  then (real (length infra_segura) / real (length tipos_infra)) * 100
                  else 0)
           in Some \<lparr>distancia_total_r = d_total, tiempo_total = t_total,
                     num_segmentos_r = length segs,
                     porcentaje_infra_segura = pct_infra_segura,
                     segmentos_r = segs\<rparr>)"

record 'n resultado_r =
  ro_origen :: 'n
  ro_destino :: 'n
  ruta_optima_r :: "'n list"
  impedancia_total_r :: real
  metricas_de_ruta :: "'n metricas_r option"

text \<open>The evaluation loop of \<open>_calcular_ruta_optima_spccm\<close> over the candidates.\<close>

fun evaluar_rutas ::
  "ConfiguracionRuteoCiclovias \<Rightarrow> 'n enlace list \<Rightarrow> 'n list list
     \<Rightarrow> py_error + ('n list \<times> real \<times> 'n metricas_r option) list" where
  "evaluar_rutas config red [] = Inr []"
| "evaluar_rutas config red (ruta # rutas) =
     (case calcular_impedancia_ruta config ruta red of
        Inl e \<Rightarrow> Inl e
      | Inr imp \<Rightarrow>
          (case evaluar_rutas config red rutas of
             Inl e \<Rightarrow> Inl e
           | Inr evaluadas \<Rightarrow>
               Inr ((ruta, imp, calcular_metricas_ruta_r config ruta red) # evaluadas)))"

text \<open>\<open>min(xs, key=f)\<close>: the first element whose key is least.\<close>

definition py_min_key :: "('a \<Rightarrow> real) \<Rightarrow> 'a list \<Rightarrow> 'a" where
  "py_min_key f xs = fold (\<lambda>x m. if f x < f m then x else m) (tl xs) (hd xs)"

text \<open>
  \<open>_calcular_ruta_optima_spccm\<close>; the \<open>timestamp_optimizacion\<close> entry (the clock) is left
  out of the result. Any exception gives \<open>None\<close>.
\<close>

definition calcular_ruta_optima_spccm ::
  "ConfiguracionRuteoCiclovias \<Rightarrow> 'n nx_shortest_path \<Rightarrow> 'n \<Rightarrow> 'n \<Rightarrow> 'n enlace list
     \<Rightarrow> 'n resultado_r option" where
  "calcular_ruta_optima_spccm config sp origen destino red_ciclovias =
     (let rutas_candidatas = encontrar_rutas_candidatas config sp origen destino red_ciclovias
      in if rutas_candidatas = [] then None
         else case evaluar_rutas config red_ciclovias rutas_candidatas of
                Inl e \<Rightarrow> None
              | Inr rutas_evaluadas \<Rightarrow>
                  let optima = py_min_key (\<lambda>x. fst (snd x)) rutas_evaluadas
                  in Some \<lparr>ro_origen = origen, ro_destino = destino,
                           ruta_optima_r = fst optima,
                           impedancia_total_r = fst (snd optima),
                           metricas_de_ruta = snd (snd optima)\<rparr>)"

text \<open>\<open>ejecutar_optimizacion_rutas\<close> of raptor\_routing.py.\<close>

fun ejecutar_optimizacion_rutas_r ::
  "ConfiguracionRuteoCiclovias \<Rightarrow> 'n nx_shortest_path \<Rightarrow> ('n \<times> 'n) list \<Rightarrow> 'n enlace list
     \<Rightarrow> 'n resultado_r list" where
  "ejecutar_optimizacion_rutas_r config sp [] red = []"
| "ejecutar_optimizacion_rutas_r config sp (par # pares_od) red =
     (case calcular_ruta_optima_spccm config sp (fst par) (snd par) red of
        None \<Rightarrow> ejecutar_optimizacion_rutas_r config sp pares_od red
      | Some optima \<Rightarrow> optima # ejecutar_optimizacion_rutas_r config sp pares_od red)"

section \<open>Scenario comparison (helper\_functions.py, transit\_stats.py, raptor\_routing.py)\<close>

text \<open>\<open>np.mean\<close>: the sum divided by the count; \<open>nan\<close> for the empty list.\<close>

definition np_mean :: "npfloat list \<Rightarrow> npfloat" where
  "np_mean xs = np_div (foldl np_add (Num 0) xs) (Num (real (length xs)))"

definition of_cost :: "cost \<Rightarrow> npfloat" where
  "of_cost c = (case c of Fin r \<Rightarrow> Num r | PInf \<Rightarrow> PosInf)"

text \<open>\<open>max(0, x)\<close>: Python returns the first argument unless the second is greater.\<close>

definition py_max0 :: "npfloat \<Rightarrow> npfloat" where
  "py_max0 x = (if np_gt x (Num 0) then x else Num 0)"

record comparacion =
  reduccion_impedancia :: npfloat
  porcentaje_desvio :: npfloat
  impedancia_promedio_base :: npfloat
  impedancia_promedio_optimizada :: npfloat
  distancia_promedio_base :: npfloat
  distancia_promedio_optimizada :: npfloat

text \<open>
  \<open>[r['metricas']['distancia_total'] for r in ...]\<close>: a result whose metrics are the
  empty dictionary raises \<open>KeyError\<close>.
\<close>

fun distancias_totales :: "resultado list \<Rightarrow> py_error + npfloat list" where
  "distancias_totales [] = Inr []"
| "distancias_totales (r # rs) =
     (case metricas r of
        None \<Rightarrow> Inl KeyError
      | Some m \<Rightarrow>
          (case distancias_totales rs of
             Inl e \<Rightarrow> Inl e
           | Inr ds \<Rightarrow> Inr (Num (distancia_total m) # ds)))"

text \<open>
  \<open>comparar_escenarios\<close> of helper\_functions.py; \<open>self.resultados_optimizacion\<close> is the
  first argument.
\<close>

definition comparar_escenarios :: "resultado list \<Rightarrow> resultado list \<Rightarrow> py_error + comparacion"
  where
  "comparar_escenarios resultados_optimizacion escenario_base =
     (let impedancia_base = np_mean (map (\<lambda>r. of_cost (impedancia_total r)) escenario_base);
          impedancia_optimizada =
            np_mean (map (\<lambda>r. of_cost (impedancia_total r)) resultados_optimizacion);
          reduccion =
            np_mul (np_div (np_sub impedancia_base impedancia_optimizada) impedancia_base)
              (Num 100)
      in case distancias_totales escenario_base of
           Inl e \<Rightarrow> Inl e
         | Inr ds_base \<Rightarrow>
             (case distancias_totales resultados_optimizacion of
                Inl e \<Rightarrow> Inl e
              | Inr ds_opt \<Rightarrow>
                  let distancia_base = np_mean ds_base;
                      distancia_optimizada = np_mean ds_opt;
                      desvio =
                        np_mul (np_div (np_sub distancia_optimizada distancia_base)
                                  distancia_base) (Num 100)
                  in Inr \<lparr>reduccion_impedancia = reduccion,
                          porcentaje_desvio = desvio,
                          impedancia_promedio_base = impedancia_base,
                          impedancia_promedio_optimizada = impedancia_optimizada,
                          distancia_promedio_base = distancia_base,
                          distancia_promedio_optimizada = distancia_optimizada\<rparr>))"

text \<open>
  \<open>_calcular_reduccion_impedancia\<close> of transit\_stats.py, on the results of
  raptor\_routing.py. Nothing in its \<open>try\<close> block raises.
\<close>

definition calcular_reduccion_impedancia ::
  "'n resultado_r list \<Rightarrow> 'n resultado_r list \<Rightarrow> npfloat" where
  "calcular_reduccion_impedancia resultados_optimizados escenario_base =
     (let impedancia_base = np_mean (map (\<lambda>r. Num (impedancia_total_r r)) escenario_base);
          impedancia_optimizada =
            np_mean (map (\<lambda>r. Num (impedancia_total_r r)) resultados_optimizados)
      in if np_gt impedancia_base (Num 0)
         then let reduccion =
                    np_mul (np_div (np_sub impedancia_base impedancia_optimizada)
                              impedancia_base) (Num 100)
              in py_max0 reduccion
         else Num 0)"



section \<open>Priority corridors (raptor\_mapping.py, transit\_stats.py)\<close>

text \<open>
  An entry of \<open>segmentos_detalle\<close> is a dictionary, of which
  \<open>generar_mapa_corredores_prioritarios\<close> reads the keys \<open>arco\<close>, \<open>impedancia\<close> and
  \<open>tipo_infraestructura\<close> with \<open>segmento['...']\<close>. A key that the dictionary does not have
  is \<open>None\<close> here, and reading it raises \<open>KeyError\<close>. (The segment dictionaries of the
  route metrics, which \<open>generar_geometrias_rutas_optimizadas\<close> stores in this column, have
  the keys \<open>nodo_inicio\<close> and \<open>nodo_fin\<close> and no key \<open>arco\<close>.)
\<close>

record 'n segmento_detalle =
  arco :: "('n \<times> 'n) option"
  impedancia_d :: "real option"
  tipo_infraestructura_d :: "int option"

text \<open>
  A row of the frame \<open>gdf_rutas\<close>: its \<open>segmentos_detalle\<close>, and the columns \<open>A\<close>, \<open>B\<close>
  and \<open>geometry\<close> that \<open>_obtener_geometria_segmento\<close> reads from the same frame
  (\<open>None\<close> where the frame has no such column or value; a lookup that raises is caught
  there and gives \<open>None\<close> as well). The geometry itself is not interpreted.
\<close>

record ('n, 'geo) fila_ruta =
  segmentos_detalle :: "'n segmento_detalle list"
  fila_A :: "'n option"
  fila_B :: "'n option"
  geometry :: "'geo option"

definition obtener_geometria_segmento ::
  "'n \<Rightarrow> 'n \<Rightarrow> ('n, 'geo) fila_ruta list \<Rightarrow> 'geo option" where
  "obtener_geometria_segmento nodo_i nodo_f red =
     (case find (\<lambda>f. (fila_A f = Some nodo_i \<and> fila_B f = Some nodo_f)
                     \<or> (fila_A f = Some nodo_f \<and> fila_B f = Some nodo_i)) red of
        None \<Rightarrow> None
      | Some f \<Rightarrow> geometry f)"

record datos_segmento =
  frecuencia :: nat
  impedancia_acumulada :: real
  tipo_infra_segmento :: int

text \<open>
  The body of the inner loop: one traversal is counted under its \<open>arco\<close>. The key \<open>arco\<close>
  is read first; \<open>impedancia\<close> is read in both branches and \<open>tipo_infraestructura\<close> only for
  an arc that is new.
\<close>

definition contar_segmento ::
  "'n segmento_detalle \<Rightarrow> (('n \<times> 'n) \<times> datos_segmento) list
     \<Rightarrow> py_error + (('n \<times> 'n) \<times> datos_segmento) list" where
  "contar_segmento seg segmentos_utilizados =
     (case arco seg of
        None \<Rightarrow> Inl KeyError
      | Some a \<Rightarrow>
          (case map_of segmentos_utilizados a of
             Some datos \<Rightarrow>
               (case impedancia_d seg of
                  None \<Rightarrow> Inl KeyError
                | Some imp \<Rightarrow>
                    Inr (dict_set a
                           (datos\<lparr>frecuencia := frecuencia datos + 1,
                                   impedancia_acumulada := impedancia_acumulada datos + imp\<rparr>)
                           segmentos_utilizados))
           | None \<Rightarrow>
               (case impedancia_d seg of
                  None \<Rightarrow> Inl KeyError
                | Some imp \<Rightarrow>
                    (case tipo_infraestructura_d seg of
                       None \<Rightarrow> Inl KeyError
                     | Some tipo \<Rightarrow>
                         Inr (dict_set a
                                \<lparr>frecuencia = 1, impedancia_acumulada = imp,
                                 tipo_infra_segmento = tipo\<rparr>
                                segmentos_utilizados)))))"

text \<open>The two nested \<open>for\<close> loops; an exception leaves both.\<close>

fun contar_segmentos ::
  "'n segmento_detalle list \<Rightarrow> (('n \<times> 'n) \<times> datos_segmento) list
     \<Rightarrow> py_error + (('n \<times> 'n) \<times> datos_segmento) list" where
  "contar_segmentos [] usados = Inr usados"
| "contar_segmentos (seg # resto) usados =
     (case contar_segmento seg usados of
        Inl e \<Rightarrow> Inl e
      | Inr usados' \<Rightarrow> contar_segmentos resto usados')"

record ('n, 'geo) corredor =
  c_nodo_inicio :: 'n
  c_nodo_fin :: 'n
  frecuencia_uso :: nat
  impedancia_promedio :: real
  prioridad_inversion :: real
  c_tipo_infraestructura :: int
  geometria :: 'geo

text \<open>The second loop: one row per used arc that has a geometry.\<close>

definition corredor_de ::
  "('n, 'geo) fila_ruta list \<Rightarrow> ('n \<times> 'n) \<times> datos_segmento \<Rightarrow> ('n, 'geo) corredor option"
  where
  "corredor_de gdf_rutas entrada =
     (let arc = fst entrada; datos = snd entrada;
          prioridad = real (frecuencia datos) * impedancia_acumulada datos
      in case obtener_geometria_segmento (fst arc) (snd arc) gdf_rutas of
           None \<Rightarrow> None
         | Some geo \<Rightarrow>
             Some \<lparr>c_nodo_inicio = fst arc, c_nodo_fin = snd arc,
                    frecuencia_uso = frecuencia datos,
                    impedancia_promedio = impedancia_acumulada datos / real (frecuencia datos),
                    prioridad_inversion = prioridad,
                    c_tipo_infraestructura = tipo_infra_segmento datos,
                    geometria = geo\<rparr>)"

fun contar_rutas ::
  "('n, 'geo) fila_ruta list \<Rightarrow> (('n \<times> 'n) \<times> datos_segmento) list
     \<Rightarrow> py_error + (('n \<times> 'n) \<times> datos_segmento) list" where
  "contar_rutas [] usados = Inr usados"
| "contar_rutas (ruta # resto) usados =
     (case contar_segmentos (segmentos_detalle ruta) usados of
        Inl e \<Rightarrow> Inl e
      | Inr usados' \<Rightarrow> contar_rutas resto usados')"

text \<open>
  \<open>generar_mapa_corredores_prioritarios\<close>. The function has no \<open>try\<close>: a \<open>KeyError\<close> of the
  first loop leaves it. \<open>sort_values(..., ascending=False)\<close> is modelled by a stable
  descending sort; pandas does not fix the order among equal priorities. The empty frame
  is the empty list.
\<close>

definition generar_mapa_corredores_prioritarios ::
  "('n, 'geo) fila_ruta list \<Rightarrow> py_error + ('n, 'geo) corredor list" where
  "generar_mapa_corredores_prioritarios gdf_rutas =
     (case contar_rutas gdf_rutas [] of
        Inl e \<Rightarrow> Inl e
      | Inr segmentos_utilizados \<Rightarrow>
          let corredores_data = List.map_filter (corredor_de gdf_rutas) segmentos_utilizados
          in if corredores_data \<noteq> []
             then Inr (sort_key (\<lambda>c. - prioridad_inversion c) corredores_data)
             else Inr [])"


section \<open>Notions used to state the properties\<close>

text \<open>
  The edge relation of a graph, and the two facts about a graph that the sources rely on:
  networkx keeps every successor as a node of the graph, and the weights are impedances,
  which are not negative (a missing weight counts as \<open>inf\<close>).
\<close>

definition aristas :: "'n grafo \<Rightarrow> ('n \<times> 'n) set" where
  "aristas g = {(u, v). \<exists>vecinos. map_of g u = Some vecinos \<and> v \<in> fst ` set vecinos}"

definition vecinos_son_nodos :: "'n grafo \<Rightarrow> bool" where
  "vecinos_son_nodos g =
     list_all (\<lambda>(u, vecinos). list_all (\<lambda>(v, atr). v \<in> set (nodos g)) vecinos) g"

definition pesos_no_negativos :: "'n grafo \<Rightarrow> bool" where
  "pesos_no_negativos g =
     list_all (\<lambda>(u, vecinos).
        list_all (\<lambda>(v, atr). 0 \<le> get_or (attr_weight atr) PInf) vecinos) g"














text \<open>
  Invariants of the \<open>while\<close> loop, used for its termination. A node is closed when its
  distance is finite and its current entry has left the queue; \<open>cota d\<close> bounds the
  distances of the closed nodes by \<open>d\<close>.
\<close>

definition cerrado :: "'n estado \<Rightarrow> 'n \<Rightarrow> bool" where
  "cerrado s u = (\<exists>r. distancias s u = Some (Fin r) \<and> (Fin r, u) \<notin> set (cola_prioridad s))"

definition abiertos :: "'n estado \<Rightarrow> 'n set" where
  "abiertos s = {u \<in> dom (distancias s). \<not> cerrado s u}"

definition cota :: "cost \<Rightarrow> 'n estado \<Rightarrow> bool" where
  "cota d s = (\<forall>c dc. cerrado s c \<longrightarrow> distancias s c = Some dc \<longrightarrow> dc \<le> d)"

definition inv_cola :: "'n grafo \<Rightarrow> 'n \<Rightarrow> 'n estado \<Rightarrow> bool" where
  "inv_cola g origen s =
     (\<forall>k x. (k, x) \<in> set (cola_prioridad s) \<longrightarrow>
        k \<noteq> PInf \<and> x \<in> set (nodos g) \<and> (origen, x) \<in> (aristas g)\<^sup>*
        \<and> (\<exists>dx. distancias s x = Some dx \<and> dx \<le> k))"

definition inv_alc :: "'n grafo \<Rightarrow> 'n \<Rightarrow> 'n estado \<Rightarrow> bool" where
  "inv_alc g origen s =
     ((\<forall>x r. distancias s x = Some (Fin r) \<longrightarrow> (origen, x) \<in> (aristas g)\<^sup>*)
      \<and> (\<forall>x p. predecesores s x = Some (Some p) \<longrightarrow> (origen, x) \<in> (aristas g)\<^sup>*))"

definition inv_dij :: "'n grafo \<Rightarrow> 'n \<Rightarrow> 'n estado \<Rightarrow> bool" where
  "inv_dij g origen s =
     (finite (dom (distancias s))
      \<and> set (nodos g) \<subseteq> dom (distancias s)
      \<and> distinct (cola_prioridad s)
      \<and> inv_cola g origen s
      \<and> (\<forall>k x. (k, x) \<in> set (cola_prioridad s) \<longrightarrow> cota k s)
      \<and> inv_alc g origen s)"


text \<open>The arithmetic mean of the specification.\<close>

definition media :: "real list \<Rightarrow> real" where
  "media xs = sum_list xs / real (length xs)"






text \<open>Example data for the instances below.\<close>

definition arista :: "real \<Rightarrow> atributos" where
  "arista w = \<lparr>attr_weight = Some (Fin w), attr_length = Some (1000 * w)\<rparr>"

definition grafo_rombo :: "nat grafo" where
  "grafo_rombo =
     [(0, [(2, arista 1), (1, arista 1)]), (2, [(3, arista 1)]), (1, [(3, arista 1)]),
      (3, [])]"




definition grafo_ids :: "py_id grafo" where
  "grafo_ids =
     [(IntId 0, [(IntId 2, arista 1), (IntId 1, arista 1)]), (IntId 2, [(IntId 3, arista 1)]),
      (IntId 1, [(IntId 3, arista 1)]), (IntId 3, [])]"

definition snapped_ej :: "string \<rightharpoonup> py_id" where
  "snapped_ej =
     [''TAZ_000'' \<mapsto> IntId 0, ''TAZ_001'' \<mapsto> IntId 1, ''TAZ_003'' \<mapsto> IntId 3,
      ''TAZ_009'' \<mapsto> IntId 9, ''TAZ_S'' \<mapsto> StrId []]"

definition enlace_ej :: "nat \<Rightarrow> nat \<Rightarrow> real \<Rightarrow> int \<Rightarrow> nat enlace" where
  "enlace_ej a b l t =
     \<lparr>col_A = a, col_B = b, longitud = l, tipo_infraestructura = Some t,
      pendiente = Some 1, volumen_vehicular = None, velocidad_vehicular = None\<rparr>"

definition red_ej :: "nat enlace list" where
  "red_ej = [enlace_ej 1 2 1000 1, enlace_ej 2 3 500 3, enlace_ej 4 3 2000 2]"

definition sp_ej :: "nat nx_shortest_path" where
  "sp_ej grafo origen destino crit = Inr [origen, destino]"

definition res_h :: "real \<Rightarrow> real \<Rightarrow> resultado" where
  "res_h imp d = \<lparr>r_origen = ''O'', r_destino = ''D'', ruta_optima = [IntId 1, IntId 2],
      impedancia_total = Fin imp,
      metricas = Some \<lparr>distancia_total = d, num_segmentos = 0, segmentos = []\<rparr>\<rparr>"

definition res_r :: "real \<Rightarrow> nat resultado_r" where
  "res_r imp = \<lparr>ro_origen = 1, ro_destino = 2, ruta_optima_r = [1, 2],
      impedancia_total_r = imp, metricas_de_ruta = None\<rparr>"






section \<open>Properties of the impedance functions\<close>

text \<open>
  C1. With a non-zero cycling speed, the network-preprocessing impedance of every segment is
  \<open>base_time * (1 + F)\<close> with \<open>base_time = (length_m / 1000 / bike_speed) * 60\<close> and
  \<open>F = safety + slope_coef * |slope| + traffic_coef * volume + speed_coef * max 0 (speed - 30)\<close>;
  the safety lookup is 1 to 0.1, 2 to 0.3, 3 to 0.6, 4 to 0.9 and 0.6 for every other
  value; and the segment of 1000 m, type 1, slope 0, volume 0, vehicle speed 30 at cycling
  speed 15 has impedance exactly 4.4 (whatever the coefficients).
\<close>

theorem C1_impedancia_multicriterio:
  assumes "velocidad_promedio_bicicleta config \<noteq> 0"
  shows "calcular_impedancia_multicriterio config enlace =
           Inr ((longitud enlace / 1000 / velocidad_promedio_bicicleta config) * 60
                * (1 + (obtener_factor_seguridad (get_or (tipo_infraestructura enlace) 3)
                        + coeficiente_pendiente config * \<bar>get_or (pendiente enlace) 0\<bar>
                        + coeficiente_trafico config * get_or (volumen_vehicular enlace) 0
                        + coeficiente_velocidad config
                            * max 0 (get_or (velocidad_vehicular enlace) 0 - 30))))
         \<and> obtener_factor_seguridad t =
             (if t = 1 then 0.1 else if t = 2 then 0.3 else if t = 3 then 0.6
              else if t = 4 then 0.9 else 0.6)
         \<and> calcular_impedancia_multicriterio
             (config\<lparr>velocidad_promedio_bicicleta := 15\<rparr>)
             (enlace\<lparr>longitud := 1000, tipo_infraestructura := Some 1, pendiente := Some 0,
                     volumen_vehicular := Some 0, velocidad_vehicular := Some 30\<rparr>)
           = Inr 4.4"
proof (intro conjI)
  show "calcular_impedancia_multicriterio config enlace =
           Inr ((longitud enlace / 1000 / velocidad_promedio_bicicleta config) * 60
                * (1 + (obtener_factor_seguridad (get_or (tipo_infraestructura enlace) 3)
                        + coeficiente_pendiente config * \<bar>get_or (pendiente enlace) 0\<bar>
                        + coeficiente_trafico config * get_or (volumen_vehicular enlace) 0
                        + coeficiente_velocidad config
                            * max 0 (get_or (velocidad_vehicular enlace) 0 - 30))))"
    using assms by (simp add: calcular_impedancia_multicriterio_def py_div_def Let_def)
next
  show "obtener_factor_seguridad t =
             (if t = 1 then 0.1 else if t = 2 then 0.3 else if t = 3 then 0.6
              else if t = 4 then 0.9 else 0.6)"
    by (simp add: obtener_factor_seguridad_def factores_def get_or_def)
next
  show "calcular_impedancia_multicriterio
             (config\<lparr>velocidad_promedio_bicicleta := 15\<rparr>)
             (enlace\<lparr>longitud := 1000, tipo_infraestructura := Some 1, pendiente := Some 0,
                     volumen_vehicular := Some 0, velocidad_vehicular := Some 30\<rparr>)
           = Inr 4.4"
    by (simp add: calcular_impedancia_multicriterio_def py_div_def Let_def
        obtener_factor_seguridad_def factores_def get_or_def)
qed

theorem C1_impedancia_multicriterio_witness:
  "velocidad_promedio_bicicleta config_por_defecto \<noteq> 0
   \<and> calcular_impedancia_multicriterio config_por_defecto
       \<lparr>col_A = (1::nat), col_B = 2, longitud = 3000, tipo_infraestructura = Some 4,
        pendiente = Some (-2), volumen_vehicular = Some 1000,
        velocidad_vehicular = Some 50\<rparr> = Inr 27.6"
proof -
  have v: "velocidad_promedio_bicicleta config_por_defecto \<noteq> 0"
    by (simp add: config_por_defecto_def)
  show ?thesis
    using v C1_impedancia_multicriterio [OF v,
        of "\<lparr>col_A = (1::nat), col_B = 2, longitud = 3000, tipo_infraestructura = Some 4,
        pendiente = Some (-2), volumen_vehicular = Some 1000,
        velocidad_vehicular = Some 50\<rparr>" 4]
    by (simp add: config_por_defecto_def get_or_def)
qed

text \<open>
  C9. With a non-zero cycling speed, a segment of length 0 has impedance 0 under both
  variants; neither function tests the length.
\<close>

theorem C9_longitud_cero:
  assumes "longitud enlace = 0"
    and "velocidad_promedio_bicicleta config \<noteq> 0"
    and "velocidad_bicicleta config_ruteo \<noteq> 0"
  shows "calcular_impedancia_multicriterio config enlace = Inr 0
         \<and> calcular_impedancia_segmento config_ruteo enlace = Inr 0"
  using assms
  by (simp add: calcular_impedancia_multicriterio_def calcular_impedancia_segmento_def
      py_div_def Let_def)

theorem C9_longitud_cero_witness:
  "longitud \<lparr>col_A = (1::nat), col_B = 2, longitud = 0, tipo_infraestructura = Some 4,
        pendiente = Some 7, volumen_vehicular = Some 900, velocidad_vehicular = Some 80\<rparr> = 0
   \<and> velocidad_promedio_bicicleta config_por_defecto \<noteq> 0
   \<and> velocidad_bicicleta config_ruteo_por_defecto \<noteq> 0
   \<and> calcular_impedancia_multicriterio config_por_defecto
        \<lparr>col_A = (1::nat), col_B = 2, longitud = 0, tipo_infraestructura = Some 4,
        pendiente = Some 7, volumen_vehicular = Some 900, velocidad_vehicular = Some 80\<rparr>
      = Inr 0
   \<and> calcular_impedancia_segmento config_ruteo_por_defecto
        \<lparr>col_A = (1::nat), col_B = 2, longitud = 0, tipo_infraestructura = Some 4,
        pendiente = Some 7, volumen_vehicular = Some 900, velocidad_vehicular = Some 80\<rparr>
      = Inr 0"
proof -
  let ?e = "\<lparr>col_A = (1::nat), col_B = 2, longitud = 0, tipo_infraestructura = Some 4,
        pendiente = Some 7, volumen_vehicular = Some 900, velocidad_vehicular = Some 80\<rparr>"
  have l: "longitud ?e = 0" by simp
  have v1: "velocidad_promedio_bicicleta config_por_defecto \<noteq> 0"
    by (simp add: config_por_defecto_def)
  have v2: "velocidad_bicicleta config_ruteo_por_defecto \<noteq> 0"
    by (simp add: config_ruteo_por_defecto_def)
  show ?thesis
    using l v1 v2 C9_longitud_cero [OF l v1 v2] by simp
qed

section \<open>Termination of the search and unreachable destinations\<close>

lemma cost_less_simps [simp]:
  "(Fin a < Fin b) = (a < b)" "(Fin a < PInf) = True" "(PInf < c) = False"
  by (cases c; auto simp: less_cost_def)+

lemma cost_le_add: "0 \<le> w \<Longrightarrow> d \<le> d + (w::cost)"
  by (cases d; cases w) (auto simp: zero_cost_def)

lemma cost_less_not_PInf: "(a::cost) < b \<Longrightarrow> a \<noteq> PInf"
  by (cases a) auto

lemma cost_not_PInf: "a \<noteq> PInf \<Longrightarrow> \<exists>r. a = Fin r"
  by (cases a) auto

lemma relajar_paso:
  fixes s :: "'n estado"
  assumes I: "inv_dij g origen s" and B: "cota d s"
    and ru: "(origen, u) \<in> (aristas g)\<^sup>*" and uv: "(u, v) \<in> aristas g"
    and vn: "v \<in> set (nodos g)" and w: "0 \<le> w"
    and dv: "distancias s v = Some dv" and lt: "d + w < dv"
  defines "s' \<equiv> s\<lparr>distancias := (distancias s)(v \<mapsto> d + w),
                   predecesores := (predecesores s)(v \<mapsto> Some u),
                   cola_prioridad := heappush (cola_prioridad s) (d + w, v)\<rparr>"
  shows "inv_dij g origen s' \<and> cota d s' \<and> abiertos s' \<subseteq> abiertos s"
proof -
  have rv: "(origen, v) \<in> (aristas g)\<^sup>*" using ru uv by (rule rtrancl_into_rtrancl)
  have ncv: "\<not> cerrado s v"
  proof
    assume "cerrado s v"
    with B dv have "dv \<le> d" by (auto simp: cota_def)
    also have "d \<le> d + w" using w by (rule cost_le_add)
    finally show False using lt by simp
  qed
  obtain r where r: "d + w = Fin r" using cost_not_PInf[OF cost_less_not_PInf[OF lt]] by blast
  have cola': "set (cola_prioridad s') = insert (d + w, v) (set (cola_prioridad s))"
    by (simp add: s'_def heappush_def)
  have ncv': "\<not> cerrado s' v"
    by (simp add: cerrado_def s'_def heappush_def r)
  have cerr: "cerrado s' x \<longleftrightarrow> cerrado s x \<and> x \<noteq> v" for x
  proof (cases "x = v")
    case True then show ?thesis using ncv' by simp
  next
    case False then show ?thesis
      by (auto simp: cerrado_def s'_def heappush_def)
  qed
  have old: "(k, x) \<in> set (cola_prioridad s) \<Longrightarrow>
      k \<noteq> PInf \<and> x \<in> set (nodos g) \<and> (origen, x) \<in> (aristas g)\<^sup>*
        \<and> (\<exists>dx. distancias s x = Some dx \<and> dx \<le> k)" for k x
    using I by (auto simp: inv_dij_def inv_cola_def)
  have notin: "(d + w, v) \<notin> set (cola_prioridad s)"
  proof
    assume "(d + w, v) \<in> set (cola_prioridad s)"
    from old[OF this] dv have "dv \<le> d + w" by auto
    with lt show False by simp
  qed
  have 1: "inv_cola g origen s'"
    unfolding inv_cola_def
  proof (intro allI impI)
    fix k x assume "(k, x) \<in> set (cola_prioridad s')"
    then consider "(k, x) = (d + w, v)" | "(k, x) \<in> set (cola_prioridad s)"
      using cola' by auto
    then show "k \<noteq> PInf \<and> x \<in> set (nodos g) \<and> (origen, x) \<in> (aristas g)\<^sup>*
        \<and> (\<exists>dx. distancias s' x = Some dx \<and> dx \<le> k)"
    proof cases
      case 1
      then show ?thesis using r vn rv by (simp add: s'_def)
    next
      case 2
      from old[OF 2] obtain dx where dx: "distancias s x = Some dx" "dx \<le> k"
        and rest: "k \<noteq> PInf" "x \<in> set (nodos g)" "(origen, x) \<in> (aristas g)\<^sup>*" by blast
      show ?thesis
      proof (cases "x = v")
        case True
        with dx dv lt have "d + w \<le> k" by auto
        then show ?thesis using rest True by (simp add: s'_def)
      next
        case False
        then show ?thesis using rest dx by (simp add: s'_def)
      qed
    qed
  qed
  have B': "cota d s'"
    unfolding cota_def using B cerr by (auto simp: cota_def s'_def)
  have 2: "\<forall>k x. (k, x) \<in> set (cola_prioridad s') \<longrightarrow> cota k s'"
  proof (intro allI impI)
    fix k x assume "(k, x) \<in> set (cola_prioridad s')"
    then consider "(k, x) = (d + w, v)" | "(k, x) \<in> set (cola_prioridad s)"
      using cola' by auto
    then show "cota k s'"
    proof cases
      case 1
      have "d \<le> k" using 1 cost_le_add[OF w] by simp
      then show ?thesis using B' by (fastforce simp: cota_def)
    next
      case 2
      then have "cota k s" using I by (auto simp: inv_dij_def)
      then show ?thesis using cerr by (auto simp: cota_def s'_def)
    qed
  qed
  have 3: "inv_alc g origen s'"
    using I rv by (auto simp: inv_dij_def inv_alc_def s'_def split: if_splits)
  have 4: "distinct (cola_prioridad s')"
    using I notin by (simp add: inv_dij_def s'_def heappush_def)
  have 5: "dom (distancias s') = dom (distancias s)"
    using dv by (auto simp: s'_def)
  have 6: "abiertos s' \<subseteq> abiertos s"
    using cerr ncv 5 by (auto simp: abiertos_def)
  show ?thesis using 1 2 3 4 5 6 B' I by (simp add: inv_dij_def)
qed


lemma relajar_vecinos_inv:
  fixes s :: "'n estado"
  assumes "inv_dij g origen s" and "cota d s"
    and "(origen, u) \<in> (aristas g)\<^sup>*"
    and "\<forall>(v, atr) \<in> set vec. (u, v) \<in> aristas g \<and> v \<in> set (nodos g)
            \<and> 0 \<le> get_or (attr_weight atr) PInf"
  shows "\<exists>s'. relajar_vecinos d u vec s = Inr s' \<and> inv_dij g origen s' \<and> cota d s'
              \<and> abiertos s' \<subseteq> abiertos s"
  using assms
proof (induction vec arbitrary: s)
  case Nil
  then show ?case by simp
next
  case (Cons a vec)
  obtain v atr where a: "a = (v, atr)" by (cases a)
  from Cons.prems(4) a have uv: "(u, v) \<in> aristas g" and vn: "v \<in> set (nodos g)"
    and w: "0 \<le> get_or (attr_weight atr) PInf"
    and rest: "\<forall>(v, atr) \<in> set vec. (u, v) \<in> aristas g \<and> v \<in> set (nodos g)
            \<and> 0 \<le> get_or (attr_weight atr) PInf"
    by auto
  from Cons.prems(1) vn obtain dv where dv: "distancias s v = Some dv"
    by (auto simp: inv_dij_def)
  show ?case
  proof (cases "d + get_or (attr_weight atr) PInf < dv")
    case True
    let ?s = "s\<lparr>distancias := (distancias s)(v \<mapsto> d + get_or (attr_weight atr) PInf),
                   predecesores := (predecesores s)(v \<mapsto> Some u),
                   cola_prioridad :=
                     heappush (cola_prioridad s) (d + get_or (attr_weight atr) PInf, v)\<rparr>"
    from relajar_paso[OF Cons.prems(1) Cons.prems(2) Cons.prems(3) uv vn w dv True]
    have st: "inv_dij g origen ?s" "cota d ?s" "abiertos ?s \<subseteq> abiertos s" by auto
    from Cons.IH[OF st(1) st(2) Cons.prems(3) rest]
    obtain s' where "relajar_vecinos d u vec ?s = Inr s'" "inv_dij g origen s'" "cota d s'"
      "abiertos s' \<subseteq> abiertos ?s" by blast
    then show ?thesis using st(3) True dv a by (auto simp: Let_def)
  next
    case False
    from Cons.IH[OF Cons.prems(1) Cons.prems(2) Cons.prems(3) rest]
    show ?thesis using False dv a by (auto simp: Let_def)
  qed
qed

lemma heappop_min:
  assumes "q \<noteq> []" and "heappop q = (m, q')"
  shows "m \<in> set q \<and> (\<forall>x \<in> set q. m \<le> x) \<and> q' = remove1 m q"
  using assms by (auto simp: heappop_def Let_def)

lemma pop_inv:
  fixes s :: "('n::linorder) estado"
  assumes I: "inv_dij g origen s" and ne: "cola_prioridad s \<noteq> []"
    and pop: "heappop (cola_prioridad s) = ((d, u), cola)"
  defines "s1 \<equiv> s\<lparr>cola_prioridad := cola\<rparr>"
  shows "inv_dij g origen s1" and "cota d s1" and "abiertos s1 \<subseteq> abiertos s"
    and "length cola < length (cola_prioridad s)"
    and "(d, u) \<in> set (cola_prioridad s)"
    and "distancias s u = Some d \<Longrightarrow> u \<in> abiertos s \<and> u \<notin> abiertos s1"
proof -
  from heappop_min[OF ne pop] have mem: "(d, u) \<in> set (cola_prioridad s)"
    and mn: "\<forall>x \<in> set (cola_prioridad s). (d, u) \<le> x"
    and cola: "cola = remove1 (d, u) (cola_prioridad s)" by auto
  have dist: "distinct (cola_prioridad s)" using I by (simp add: inv_dij_def)
  have setc: "set cola = set (cola_prioridad s) - {(d, u)}"
    using cola dist by simp
  have le: "d \<le> k" if "(k, x) \<in> set (cola_prioridad s)" for k x
    using mn that by (fastforce simp: less_eq_prod_def)
  show mem': "(d, u) \<in> set (cola_prioridad s)" by (rule mem)
  show "length cola < length (cola_prioridad s)"
    using mem cola by (simp add: length_remove1) (cases "cola_prioridad s"; simp)
  have Bs: "cota d s" using I mem by (auto simp: inv_dij_def)
  have cerr: "cerrado s1 x \<longleftrightarrow> cerrado s x \<or> (x = u \<and> distancias s u = Some d)" for x
  proof -
    from I mem have "d \<noteq> PInf" by (auto simp: inv_dij_def inv_cola_def)
    then obtain r where "d = Fin r" by (cases d) auto
    then show ?thesis
      by (auto simp: cerrado_def s1_def setc)
  qed
  show B1: "cota d s1"
    using Bs cerr by (auto simp: cota_def s1_def)
  show "abiertos s1 \<subseteq> abiertos s"
    using cerr by (auto simp: abiertos_def s1_def)
  show "inv_dij g origen s1"
  proof -
    have a: "inv_cola g origen s1"
      using I by (auto simp: inv_dij_def inv_cola_def s1_def setc)
    have b: "\<forall>k x. (k, x) \<in> set (cola_prioridad s1) \<longrightarrow> cota k s1"
    proof (intro allI impI)
      fix k x assume "(k, x) \<in> set (cola_prioridad s1)"
      then have "(k, x) \<in> set (cola_prioridad s)" by (simp add: s1_def setc)
      then have "d \<le> k" by (rule le)
      then show "cota k s1" using B1 by (fastforce simp: cota_def)
    qed
    have c: "inv_alc g origen s1" using I by (simp add: inv_dij_def inv_alc_def s1_def)
    have d: "distinct (cola_prioridad s1)" using dist cola by (simp add: s1_def)
    show ?thesis using a b c d I by (simp add: inv_dij_def s1_def)
  qed
  show "u \<in> abiertos s \<and> u \<notin> abiertos s1" if "distancias s u = Some d"
  proof -
    from I mem have "d \<noteq> PInf" by (auto simp: inv_dij_def inv_cola_def)
    then obtain r where r: "d = Fin r" by (cases d) auto
    have "\<not> cerrado s u" using that mem r by (auto simp: cerrado_def)
    moreover have "cerrado s1 u" using cerr that by simp
    ultimately show ?thesis using that by (auto simp: abiertos_def s1_def)
  qed
qed

lemma map_of_nodos: "u \<in> set (nodos g) \<Longrightarrow> \<exists>vec. map_of g u = Some vec"
  by (cases "map_of g u") (auto simp: nodos_def map_of_eq_None_iff)

lemma vecinos_ok:
  assumes "vecinos_son_nodos g" and "pesos_no_negativos g" and "map_of g u = Some vec"
  shows "\<forall>(v, atr) \<in> set vec. (u, v) \<in> aristas g \<and> v \<in> set (nodos g)
            \<and> 0 \<le> get_or (attr_weight atr) PInf"
proof -
  from assms(3) have mem: "(u, vec) \<in> set g" by (rule map_of_SomeD)
  have a: "\<forall>(v, atr) \<in> set vec. v \<in> set (nodos g)"
    using assms(1) mem by (fastforce simp: vecinos_son_nodos_def list_all_iff)
  have b: "\<forall>(v, atr) \<in> set vec. 0 \<le> get_or (attr_weight atr) PInf"
    using assms(2) mem by (fastforce simp: pesos_no_negativos_def list_all_iff)
  have c: "\<forall>(v, atr) \<in> set vec. (u, v) \<in> aristas g"
    using assms(3) by (force simp: aristas_def)
  show ?thesis using a b c by auto
qed

lemma bucle_dijkstra_termina:
  fixes s :: "('n::linorder) estado"
  assumes vn: "vecinos_son_nodos g" and pn: "pesos_no_negativos g"
    and I0: "inv_dij g origen s"
  shows "\<exists>r. bucle_dijkstra g destino s = Some (Inr r) \<and> inv_dij g origen r"
proof -
  have "wf (inv_image (less_than <*lex*> less_than)
           (\<lambda>s::'n estado. (card (abiertos s), length (cola_prioridad s))))"
    by (intro wf_inv_image wf_lex_prod wf_less_than)
  then have "inv_dij g origen s \<longrightarrow>
         (\<exists>r. bucle_dijkstra g destino s = Some (Inr r) \<and> inv_dij g origen r)"
  proof (induct s rule: wf_induct_rule)
  case (less s)
  show ?case
  proof
  assume I: "inv_dij g origen s"
  have fin: "finite (abiertos s)" using I by (simp add: inv_dij_def abiertos_def)
  show "\<exists>r. bucle_dijkstra g destino s = Some (Inr r) \<and> inv_dij g origen r"
  proof (cases "cola_prioridad s = []")
    case True
    then show ?thesis using I by (subst bucle_dijkstra.simps) simp
  next
    case False
    obtain d u cola where pop: "heappop (cola_prioridad s) = ((d, u), cola)"
      by (metis surj_pair)
    let ?s1 = "s\<lparr>cola_prioridad := cola\<rparr>"
    note P = pop_inv[OF I False pop]
    from I have "inv_cola g origen s" by (simp add: inv_dij_def)
    with P(5) have ent: "u \<in> set (nodos g) \<and> (origen, u) \<in> (aristas g)\<^sup>*
        \<and> (\<exists>dx. distancias s u = Some dx \<and> dx \<le> d)"
      unfolding inv_cola_def by blast
    then obtain du where du: "distancias s u = Some du" "du \<le> d" by blast
    from ent have un: "u \<in> set (nodos g)" and ru: "(origen, u) \<in> (aristas g)\<^sup>*"
      by simp_all
    show ?thesis
    proof (cases "u = destino")
      case True
      then show ?thesis using False pop P(1)
        by (subst bucle_dijkstra.simps) simp
    next
      case nd: False
      show ?thesis
      proof (cases "d > du")
        case True
        have "card (abiertos ?s1) \<le> card (abiertos s)"
          using P(3) fin by (rule card_mono[rotated])
        then have "(?s1, s) \<in> inv_image (less_than <*lex*> less_than)
           (\<lambda>s. (card (abiertos s), length (cola_prioridad s)))"
          using P(4) by auto
        from less[OF this] P(1) obtain r where
          "bucle_dijkstra g destino ?s1 = Some (Inr r)" "inv_dij g origen r" by blast
        then show ?thesis using False pop nd du True
          by (subst bucle_dijkstra.simps) simp
      next
        case nt: False
        with du have deq: "du = d" by simp
        from map_of_nodos[OF un] obtain vec where vec: "map_of g u = Some vec" by blast
        from relajar_vecinos_inv[OF P(1) P(2) ru vecinos_ok[OF vn pn vec]]
        obtain s2 where s2: "relajar_vecinos d u vec ?s1 = Inr s2" "inv_dij g origen s2"
          "abiertos s2 \<subseteq> abiertos ?s1" by blast
        from P(6) du deq have "u \<in> abiertos s" "u \<notin> abiertos ?s1" by auto
        with s2(3) P(3) have "abiertos s2 \<subset> abiertos s" by auto
        then have "card (abiertos s2) < card (abiertos s)"
          using fin by (simp add: psubset_card_mono)
        then have "(s2, s) \<in> inv_image (less_than <*lex*> less_than)
           (\<lambda>s. (card (abiertos s), length (cola_prioridad s)))"
          by auto
        from less[OF this] s2(2) obtain r where
          "bucle_dijkstra g destino s2 = Some (Inr r)" "inv_dij g origen r" by blast
        then show ?thesis using False pop nd du nt vec s2(1)
          by (subst bucle_dijkstra.simps) simp
      qed
    qed
  qed
  qed
  qed
  then show ?thesis using I0 by simp
qed

lemma inv_dij_inicial:
  assumes "origen \<in> set (nodos g)"
  shows "inv_dij g origen (estado_inicial g origen)"
proof -
  have nc: "\<not> cerrado (estado_inicial g origen) c" for c
    by (auto simp: cerrado_def estado_inicial_def zero_cost_def split: if_splits)
  show ?thesis
    unfolding inv_dij_def
  proof (intro conjI)
    show "finite (dom (distancias (estado_inicial g origen)))"
    proof -
      have "dom (distancias (estado_inicial g origen)) = insert origen (set (nodos g))"
        by (auto simp: estado_inicial_def split: if_splits)
      then show ?thesis by simp
    qed
    show "set (nodos g) \<subseteq> dom (distancias (estado_inicial g origen))"
      by (auto simp: estado_inicial_def)
    show "distinct (cola_prioridad (estado_inicial g origen))"
      by (simp add: estado_inicial_def)
    show "inv_cola g origen (estado_inicial g origen)"
      using assms by (simp add: inv_cola_def estado_inicial_def zero_cost_def)
    show "\<forall>k x. (k, x) \<in> set (cola_prioridad (estado_inicial g origen)) \<longrightarrow>
            cota k (estado_inicial g origen)"
      using nc by (simp add: cota_def)
    show "inv_alc g origen (estado_inicial g origen)"
      by (auto simp: inv_alc_def estado_inicial_def split: if_splits)
  qed
qed

lemma reconstruir_ruta_sin_predecesor:
  assumes "get_or (preds destino) None = None"
  shows "reconstruir_ruta preds destino = Some [destino]"
  using assms
  by (simp add: reconstruir_ruta_def seguir_predecesores.simps[of preds "Some destino"]
      seguir_predecesores.simps[of preds None])

lemma dijkstra_inalcanzable:
  fixes g :: "('n::linorder) grafo"
  assumes vn: "vecinos_son_nodos g" and pn: "pesos_no_negativos g"
    and o: "origen \<in> set (nodos g)"
    and nr: "(origen, destino) \<notin> (aristas g)\<^sup>*"
  shows "dijkstra_ciclista g origen destino = Some (Inr ([destino], PInf))"
proof -
  from bucle_dijkstra_termina[OF vn pn inv_dij_inicial[OF o]]
  obtain r where r: "bucle_dijkstra g destino (estado_inicial g origen) = Some (Inr r)"
    and I: "inv_dij g origen r" by blast
  have d: "get_or (distancias r destino) PInf = PInf"
  proof (cases "distancias r destino")
    case None then show ?thesis by (simp add: get_or_def)
  next
    case (Some c)
    then show ?thesis using I nr by (cases c) (auto simp: inv_dij_def inv_alc_def get_or_def)
  qed
  have p: "get_or (predecesores r destino) None = None"
  proof (cases "predecesores r destino")
    case None then show ?thesis by (simp add: get_or_def)
  next
    case (Some c)
    then show ?thesis using I nr by (cases c) (auto simp: inv_dij_def inv_alc_def get_or_def)
  qed
  show ?thesis
    using r d reconstruir_ruta_sin_predecesor[of "predecesores r" destino, OF p]
    by (simp add: dijkstra_ciclista_def)
qed

lemma aristas_rombo:
  "aristas grafo_rombo = {(0, 2), (0, 1), (2, 3), (1, 3)}"
  by (auto simp: aristas_def grafo_rombo_def split: if_splits)

lemma rombo_desde_2: "(2, x) \<in> (aristas grafo_rombo)\<^sup>* \<Longrightarrow> x = 2 \<or> x = 3"
  by (induction rule: rtrancl_induct) (auto simp: aristas_rombo)

lemma rombo_ok: "vecinos_son_nodos grafo_rombo \<and> pesos_no_negativos grafo_rombo"
  by (simp add: vecinos_son_nodos_def pesos_no_negativos_def grafo_rombo_def nodos_def
      arista_def get_or_def zero_cost_def)

text \<open>
  C2, as amended. On a graph whose successors are nodes and whose weights are not negative,
  for an origin and a destination that are both nodes with no directed path from the one
  to the other, \<open>_dijkstra_ciclista\<close> returns, without raising, the cost \<open>inf\<close> together
  with the route that consists of the destination alone: \<open>_reconstruir_ruta\<close> always puts
  the destination into the route, so the route is never empty.
\<close>

theorem C2_destino_inalcanzable:
  fixes g :: "('n::linorder) grafo"
  assumes "vecinos_son_nodos g" and "pesos_no_negativos g"
    and "origen \<in> set (nodos g)" and "destino \<in> set (nodos g)"
    and "(origen, destino) \<notin> (aristas g)\<^sup>*"
  shows "dijkstra_ciclista g origen destino = Some (Inr ([destino], PInf))"
  using assms(1,2,3,5) by (rule dijkstra_inalcanzable)

text \<open>An instance: in the diamond graph node 0 cannot be reached from node 2.\<close>

theorem C2_destino_inalcanzable_witness:
  "vecinos_son_nodos grafo_rombo \<and> pesos_no_negativos grafo_rombo
   \<and> 2 \<in> set (nodos grafo_rombo) \<and> 0 \<in> set (nodos grafo_rombo)
   \<and> (2, 0) \<notin> (aristas grafo_rombo)\<^sup>*
   \<and> dijkstra_ciclista grafo_rombo 2 0 = Some (Inr ([0], PInf))"
proof -
  have a: "2 \<in> set (nodos grafo_rombo)" and b: "0 \<in> set (nodos grafo_rombo)"
    by (simp_all add: nodos_def grafo_rombo_def)
  have c: "(2, 0) \<notin> (aristas grafo_rombo)\<^sup>*"
    using rombo_desde_2[of 0] by auto
  from rombo_ok have d: "vecinos_son_nodos grafo_rombo" and e: "pesos_no_negativos grafo_rombo"
    by simp_all
  show ?thesis
    using a b c d e C2_destino_inalcanzable[OF d e a b c] by simp
qed

text \<open>
  The claim as worded (an empty route) fails: from node 2 of the diamond graph, node 1 is
  present and unreachable, and the returned route is \<open>[1]\<close>.
\<close>

theorem C2_ruta_no_vacia_counterexample:
  "2 \<in> set (nodos grafo_rombo) \<and> 1 \<in> set (nodos grafo_rombo)
   \<and> (2, 1) \<notin> (aristas grafo_rombo)\<^sup>*
   \<and> dijkstra_ciclista grafo_rombo 2 1 = Some (Inr ([1], PInf))
   \<and> dijkstra_ciclista grafo_rombo 2 1 \<noteq> Some (Inr ([], PInf))"
proof -
  have a: "2 \<in> set (nodos grafo_rombo) \<and> 1 \<in> set (nodos grafo_rombo)"
    by (simp add: nodos_def grafo_rombo_def)
  have b: "(2, 1) \<notin> (aristas grafo_rombo)\<^sup>*"
    using rombo_desde_2[of 1] by auto
  have c: "dijkstra_ciclista grafo_rombo 2 1 = Some (Inr ([1], PInf))"
    by code_simp
  show ?thesis using a b c by simp
qed

section \<open>Ties in the priority queue\<close>





























section \<open>The batch loop\<close>

lemma dijkstra_origen_ausente:
  fixes g :: "('n::linorder) grafo"
  assumes "origen \<notin> set (nodos g)" and "origen \<noteq> destino"
  shows "dijkstra_ciclista g origen destino = Some (Inl KeyError)"
proof -
  have m: "map_of g origen = None"
    using assms(1) by (simp add: nodos_def map_of_eq_None_iff)
  have "bucle_dijkstra g destino (estado_inicial g origen) = Some (Inl KeyError)"
    using assms(2) m
    by (subst bucle_dijkstra.simps) (simp add: estado_inicial_def heappop_def)
  then show ?thesis by (simp add: dijkstra_ciclista_def)
qed

lemma destino_ausente_inalcanzable:
  assumes "vecinos_son_nodos g" and "origen \<in> set (nodos g)" and "destino \<notin> set (nodos g)"
  shows "(origen, destino) \<notin> (aristas g)\<^sup>*"
proof
  assume "(origen, destino) \<in> (aristas g)\<^sup>*"
  then show False
  proof (cases rule: rtranclE)
    case base
    then show False using assms(2,3) by simp
  next
    case (step y)
    then obtain vec where vec: "map_of g y = Some vec" "destino \<in> fst ` set vec"
      by (auto simp: aristas_def)
    from vec(1) have "(y, vec) \<in> set g" by (rule map_of_SomeD)
    with assms(1) vec(2) have "destino \<in> set (nodos g)"
      by (fastforce simp: vecinos_son_nodos_def list_all_iff)
    with assms(3) show False by simp
  qed
qed

text \<open>
  C10. A pair whose origin or destination has no snapped node, or whose snapped node
  identifier is falsy (\<open>not x\<close> holds of \<open>None\<close>, of the integer 0 and of the empty
  string), is skipped: it contributes no result and the loop goes on with the remaining
  pairs.
\<close>

theorem C10_nodo_falsy_omitido:
  assumes "py_not (nodos_snapped origen) \<or> py_not (nodos_snapped destino)"
  shows "optimizar_par g nodos_snapped (origen, destino) = Some None
         \<and> ejecutar_optimizacion_rutas g nodos_snapped ((origen, destino) # pares_od)
             = ejecutar_optimizacion_rutas g nodos_snapped pares_od
         \<and> py_not None \<and> py_not (Some (IntId 0)) \<and> py_not (Some (StrId ''''))"
proof -
  have a: "optimizar_par g nodos_snapped (origen, destino) = Some None"
    using assms by (simp add: optimizar_par_def Let_def)
  then have "ejecutar_optimizacion_rutas g nodos_snapped ((origen, destino) # pares_od)
             = ejecutar_optimizacion_rutas g nodos_snapped pares_od"
    by (simp split: option.splits)
  with a show ?thesis by simp
qed

text \<open>
  An instance: the zone snapped to node 0 is dropped although node 0 is in the graph and
  a route from it exists.
\<close>

theorem C10_nodo_falsy_omitido_witness:
  "(py_not (snapped_ej ''TAZ_000'') \<or> py_not (snapped_ej ''TAZ_003''))
   \<and> snapped_ej ''TAZ_000'' = Some (IntId 0) \<and> IntId 0 \<in> set (nodos grafo_ids)
   \<and> dijkstra_ciclista grafo_ids (IntId 0) (IntId 3)
       = Some (Inr ([IntId 0, IntId 1, IntId 3], Fin 2))
   \<and> ejecutar_optimizacion_rutas grafo_ids snapped_ej [(''TAZ_000'', ''TAZ_003'')] = Some []"
proof -
  have a: "snapped_ej ''TAZ_000'' = Some (IntId 0)" by (simp add: snapped_ej_def)
  then have b: "py_not (snapped_ej ''TAZ_000'') \<or> py_not (snapped_ej ''TAZ_003'')" by simp
  have c: "IntId 0 \<in> set (nodos grafo_ids)" by (simp add: nodos_def grafo_ids_def)
  have d: "dijkstra_ciclista grafo_ids (IntId 0) (IntId 3)
       = Some (Inr ([IntId 0, IntId 1, IntId 3], Fin 2))" by code_simp
  show ?thesis
    using a b c d
      C10_nodo_falsy_omitido[where nodos_snapped = snapped_ej and origen = "''TAZ_000''"
        and destino = "''TAZ_003''" and g = grafo_ids and pares_od = "[]", OF b]
    by simp
qed

section \<open>Absent endpoints\<close>

lemma nodos_add_node: "set (nodos (add_node g u)) = insert u (set (nodos g))"
  by (auto simp: add_node_def nodos_def)

lemma nodos_add_edge: "set (nodos (add_edge g u v a)) = insert u (insert v (set (nodos g)))"
proof -
  have "nodos (add_edge g u v a) = nodos (add_node (add_node g u) v)"
    by (simp add: add_edge_def nodos_def case_prod_unfold if_distrib cong: if_cong)
  then show ?thesis by (auto simp: nodos_add_node)
qed

lemma nodos_agregar_enlaces:
  "agregar_enlaces config red g = Inr g' \<Longrightarrow>
     set (nodos g') = set (nodos g) \<union> col_A ` set red \<union> col_B ` set red"
proof (induction red arbitrary: g)
  case Nil
  then show ?case by simp
next
  case (Cons e red)
  then show ?case
    by (auto simp: Let_def nodos_add_edge split: sum.splits)
qed

lemma nodos_crear_grafo:
  "crear_grafo_desde_red config red = Inr g \<Longrightarrow>
     set (nodos g) = col_A ` set red \<union> col_B ` set red"
  using nodos_agregar_enlaces[of config red "[]" g]
  by (simp add: crear_grafo_desde_red_def nodos_def)

lemma candidatas_vacias:
  assumes "origen \<notin> col_A ` set red \<union> col_B ` set red
           \<or> destino \<notin> col_A ` set red \<union> col_B ` set red"
  shows "encontrar_rutas_candidatas config sp origen destino red = []"
proof (cases "crear_grafo_desde_red config red")
  case (Inl e)
  then show ?thesis by (simp add: encontrar_rutas_candidatas_def)
next
  case (Inr g)
  from nodos_crear_grafo[OF Inr] assms
  have "encontrar_ruta_por_criterio sp g origen destino crit = None" for crit
    by (auto simp: encontrar_ruta_por_criterio_def)
  then show ?thesis using Inr
    by (simp add: encontrar_rutas_candidatas_def criterios_impedancia_def)
qed

lemma ids_ok: "vecinos_son_nodos grafo_ids \<and> pesos_no_negativos grafo_ids"
  by (simp add: vecinos_son_nodos_def pesos_no_negativos_def grafo_ids_def nodos_def
      arista_def get_or_def zero_cost_def)

lemma ids_nodo_1: "IntId 1 \<in> set (nodos grafo_ids)"
  by (simp add: nodos_def grafo_ids_def)

text \<open>
  C3, as amended. No search has a \<open>NodeNotFoundError\<close>. In \<open>_dijkstra_ciclista\<close> an origin
  that is not a node (and differs from the destination) raises \<open>KeyError\<close> at the first
  expansion; the batch loop catches it, skips the pair and goes on with the remaining
  pairs. A destination that is not a node is not an error there: on a graph whose
  successors are nodes and whose weights are not negative, from an origin that is a node,
  the search returns the cost \<open>inf\<close> with the route \<open>[destino]\<close>, and the batch loop keeps
  the pair, with that route, that cost and empty metrics, before it goes on with the
  remaining pairs. In raptor\_routing.py an endpoint that is not a node gives no route
  (\<open>None\<close>) without any exception, the pair gets no result and the batch goes on with the
  remaining pairs.
\<close>

theorem C3_extremo_ausente:
  fixes g :: "py_id grafo"
  shows
  "(origen \<notin> set (nodos g) \<and> origen \<noteq> destino
      \<longrightarrow> dijkstra_ciclista g origen destino = Some (Inl KeyError))
   \<and> (nodos_snapped zo = Some origen \<and> nodos_snapped zd = Some destino
        \<and> \<not> py_not (Some origen) \<and> \<not> py_not (Some destino)
        \<and> origen \<notin> set (nodos g) \<and> origen \<noteq> destino
      \<longrightarrow> ejecutar_optimizacion_rutas g nodos_snapped ((zo, zd) # pares_od)
            = ejecutar_optimizacion_rutas g nodos_snapped pares_od)
   \<and> (vecinos_son_nodos g \<and> pesos_no_negativos g
        \<and> origen \<in> set (nodos g) \<and> destino \<notin> set (nodos g)
      \<longrightarrow> dijkstra_ciclista g origen destino = Some (Inr ([destino], PInf)))
   \<and> (a \<notin> set (nodos grafo) \<or> b \<notin> set (nodos grafo)
      \<longrightarrow> encontrar_ruta_por_criterio sp grafo a b crit = None)
   \<and> (a \<notin> col_A ` set red \<union> col_B ` set red \<or> b \<notin> col_A ` set red \<union> col_B ` set red
      \<longrightarrow> calcular_ruta_optima_spccm config sp a b red = None
          \<and> ejecutar_optimizacion_rutas_r config sp ((a, b) # pares) red
              = ejecutar_optimizacion_rutas_r config sp pares red)
   \<and> (nodos_snapped zo = Some origen \<and> nodos_snapped zd = Some destino
        \<and> \<not> py_not (Some origen) \<and> \<not> py_not (Some destino)
        \<and> vecinos_son_nodos g \<and> pesos_no_negativos g
        \<and> origen \<in> set (nodos g) \<and> destino \<notin> set (nodos g)
      \<longrightarrow> ejecutar_optimizacion_rutas g nodos_snapped ((zo, zd) # pares_od)
            = map_option
                (\<lambda>resultados.
                   \<lparr>r_origen = zo, r_destino = zd, ruta_optima = [destino],
                    impedancia_total = PInf, metricas = None\<rparr> # resultados)
                (ejecutar_optimizacion_rutas g nodos_snapped pares_od))"
proof -
  have 1: "dijkstra_ciclista g origen destino = Some (Inl KeyError)"
    if "origen \<notin> set (nodos g) \<and> origen \<noteq> destino"
    using that by (simp add: dijkstra_origen_ausente)
  have 2: "ejecutar_optimizacion_rutas g nodos_snapped ((zo, zd) # pares_od)
            = ejecutar_optimizacion_rutas g nodos_snapped pares_od"
    if h: "nodos_snapped zo = Some origen \<and> nodos_snapped zd = Some destino
        \<and> \<not> py_not (Some origen) \<and> \<not> py_not (Some destino)
        \<and> origen \<notin> set (nodos g) \<and> origen \<noteq> destino"
  proof -
    from h 1 have d: "dijkstra_ciclista g origen destino = Some (Inl KeyError)" by blast
    have "optimizar_par g nodos_snapped (zo, zd) = Some None"
      using h d by (simp add: optimizar_par_def Let_def)
    then show ?thesis by (simp split: option.splits)
  qed
  have 3: "dijkstra_ciclista g origen destino = Some (Inr ([destino], PInf))"
    if h: "vecinos_son_nodos g \<and> pesos_no_negativos g
        \<and> origen \<in> set (nodos g) \<and> destino \<notin> set (nodos g)"
  proof -
    from h have v: "vecinos_son_nodos g" and p: "pesos_no_negativos g"
      and o: "origen \<in> set (nodos g)" and dn: "destino \<notin> set (nodos g)"
      by simp_all
    show ?thesis
      by (rule dijkstra_inalcanzable[OF v p o destino_ausente_inalcanzable[OF v o dn]])
  qed
  have 4: "encontrar_ruta_por_criterio sp grafo a b crit = None"
    if "a \<notin> set (nodos grafo) \<or> b \<notin> set (nodos grafo)"
    using that by (auto simp: encontrar_ruta_por_criterio_def)
  have 5: "calcular_ruta_optima_spccm config sp a b red = None
          \<and> ejecutar_optimizacion_rutas_r config sp ((a, b) # pares) red
              = ejecutar_optimizacion_rutas_r config sp pares red"
    if h: "a \<notin> col_A ` set red \<union> col_B ` set red \<or> b \<notin> col_A ` set red \<union> col_B ` set red"
  proof -
    from candidatas_vacias[OF h]
    have "calcular_ruta_optima_spccm config sp a b red = None"
      by (simp add: calcular_ruta_optima_spccm_def)
    then show ?thesis by simp
  qed
  have 6: "ejecutar_optimizacion_rutas g nodos_snapped ((zo, zd) # pares_od)
            = map_option
                (\<lambda>resultados.
                   \<lparr>r_origen = zo, r_destino = zd, ruta_optima = [destino],
                    impedancia_total = PInf, metricas = None\<rparr> # resultados)
                (ejecutar_optimizacion_rutas g nodos_snapped pares_od)"
    if h: "nodos_snapped zo = Some origen \<and> nodos_snapped zd = Some destino
        \<and> \<not> py_not (Some origen) \<and> \<not> py_not (Some destino)
        \<and> vecinos_son_nodos g \<and> pesos_no_negativos g
        \<and> origen \<in> set (nodos g) \<and> destino \<notin> set (nodos g)"
  proof -
    from h have "vecinos_son_nodos g \<and> pesos_no_negativos g
        \<and> origen \<in> set (nodos g) \<and> destino \<notin> set (nodos g)" by simp
    then have d: "dijkstra_ciclista g origen destino = Some (Inr ([destino], PInf))"
      by (rule 3)
    have m: "calcular_metricas_ruta g [destino] = None"
      by (simp add: calcular_metricas_ruta_def)
    have "optimizar_par g nodos_snapped (zo, zd)
        = Some (Some \<lparr>r_origen = zo, r_destino = zd, ruta_optima = [destino],
                        impedancia_total = PInf, metricas = None\<rparr>)"
      using h d m by (simp add: optimizar_par_def Let_def)
    then show ?thesis by (simp split: option.splits)
  qed
  show ?thesis
  proof (intro conjI)
    show "origen \<notin> set (nodos g) \<and> origen \<noteq> destino
      \<longrightarrow> dijkstra_ciclista g origen destino = Some (Inl KeyError)"
      using 1 by (rule impI)
    show "nodos_snapped zo = Some origen \<and> nodos_snapped zd = Some destino
        \<and> \<not> py_not (Some origen) \<and> \<not> py_not (Some destino)
        \<and> origen \<notin> set (nodos g) \<and> origen \<noteq> destino
      \<longrightarrow> ejecutar_optimizacion_rutas g nodos_snapped ((zo, zd) # pares_od)
            = ejecutar_optimizacion_rutas g nodos_snapped pares_od"
      using 2 by (rule impI)
    show "vecinos_son_nodos g \<and> pesos_no_negativos g
        \<and> origen \<in> set (nodos g) \<and> destino \<notin> set (nodos g)
      \<longrightarrow> dijkstra_ciclista g origen destino = Some (Inr ([destino], PInf))"
      using 3 by (rule impI)
    show "a \<notin> set (nodos grafo) \<or> b \<notin> set (nodos grafo)
      \<longrightarrow> encontrar_ruta_por_criterio sp grafo a b crit = None"
      using 4 by (rule impI)
    show "a \<notin> col_A ` set red \<union> col_B ` set red \<or> b \<notin> col_A ` set red \<union> col_B ` set red
      \<longrightarrow> calcular_ruta_optima_spccm config sp a b red = None
          \<and> ejecutar_optimizacion_rutas_r config sp ((a, b) # pares) red
              = ejecutar_optimizacion_rutas_r config sp pares red"
      using 5 by (rule impI)
    show "nodos_snapped zo = Some origen \<and> nodos_snapped zd = Some destino
        \<and> \<not> py_not (Some origen) \<and> \<not> py_not (Some destino)
        \<and> vecinos_son_nodos g \<and> pesos_no_negativos g
        \<and> origen \<in> set (nodos g) \<and> destino \<notin> set (nodos g)
      \<longrightarrow> ejecutar_optimizacion_rutas g nodos_snapped ((zo, zd) # pares_od)
            = map_option
                (\<lambda>resultados.
                   \<lparr>r_origen = zo, r_destino = zd, ruta_optima = [destino],
                    impedancia_total = PInf, metricas = None\<rparr> # resultados)
                (ejecutar_optimizacion_rutas g nodos_snapped pares_od)"
      using 6 by (rule impI)
  qed
qed

text \<open>Instances of the six parts, on the example graph and the example segment table.\<close>

theorem C3_extremo_ausente_witness:
  "(IntId 9 \<notin> set (nodos grafo_ids) \<and> IntId 9 \<noteq> IntId 1)
   \<and> dijkstra_ciclista grafo_ids (IntId 9) (IntId 1) = Some (Inl KeyError)
   \<and> (snapped_ej ''TAZ_009'' = Some (IntId 9) \<and> snapped_ej ''TAZ_001'' = Some (IntId 1)
        \<and> \<not> py_not (Some (IntId 9)) \<and> \<not> py_not (Some (IntId 1)))
   \<and> ejecutar_optimizacion_rutas grafo_ids snapped_ej [(''TAZ_009'', ''TAZ_001'')] = Some []
   \<and> (vecinos_son_nodos grafo_ids \<and> pesos_no_negativos grafo_ids
        \<and> IntId 1 \<in> set (nodos grafo_ids))
   \<and> dijkstra_ciclista grafo_ids (IntId 1) (IntId 9) = Some (Inr ([IntId 9], PInf))
   \<and> (9 \<notin> col_A ` set red_ej \<union> col_B ` set red_ej)
   \<and> ejecutar_optimizacion_rutas_r config_ruteo_por_defecto sp_ej [(1, 9)] red_ej = []
   \<and> ejecutar_optimizacion_rutas grafo_ids snapped_ej [(''TAZ_001'', ''TAZ_009'')]
       = Some [\<lparr>r_origen = ''TAZ_001'', r_destino = ''TAZ_009'', ruta_optima = [IntId 9],
                 impedancia_total = PInf, metricas = None\<rparr>]"
proof -
  have a: "IntId 9 \<notin> set (nodos grafo_ids) \<and> IntId 9 \<noteq> IntId 1"
    by (simp add: nodos_def grafo_ids_def)
  have b: "snapped_ej ''TAZ_009'' = Some (IntId 9) \<and> snapped_ej ''TAZ_001'' = Some (IntId 1)
        \<and> \<not> py_not (Some (IntId 9)) \<and> \<not> py_not (Some (IntId 1))"
    by (simp add: snapped_ej_def)
  have c: "vecinos_son_nodos grafo_ids \<and> pesos_no_negativos grafo_ids
        \<and> IntId 1 \<in> set (nodos grafo_ids)"
    using ids_ok ids_nodo_1 by (intro conjI) simp_all
  have c': "vecinos_son_nodos grafo_ids \<and> pesos_no_negativos grafo_ids
        \<and> IntId 1 \<in> set (nodos grafo_ids) \<and> IntId 9 \<notin> set (nodos grafo_ids)"
    using c a by (intro conjI) simp_all
  have b': "snapped_ej ''TAZ_009'' = Some (IntId 9) \<and> snapped_ej ''TAZ_001'' = Some (IntId 1)
        \<and> \<not> py_not (Some (IntId 9)) \<and> \<not> py_not (Some (IntId 1))
        \<and> IntId 9 \<notin> set (nodos grafo_ids) \<and> IntId 9 \<noteq> IntId 1"
    using a b by (intro conjI) simp_all
  have d: "9 \<notin> col_A ` set red_ej \<union> col_B ` set red_ej"
    by (simp add: red_ej_def enlace_ej_def)
  note T1 = C3_extremo_ausente[where g = grafo_ids and origen = "IntId 9"
        and destino = "IntId 1" and nodos_snapped = snapped_ej and zo = "''TAZ_009''"
        and zd = "''TAZ_001''" and pares_od = "[]" and a = 1 and b = 9 and red = red_ej
        and pares = "[]" and config = config_ruteo_por_defecto and sp = sp_ej]
  note T2 = C3_extremo_ausente[where g = grafo_ids and origen = "IntId 1"
        and destino = "IntId 9"]
  have k1: "dijkstra_ciclista grafo_ids (IntId 9) (IntId 1) = Some (Inl KeyError)"
    by (rule T1[THEN conjunct1, THEN mp, OF a])
  have k2: "ejecutar_optimizacion_rutas grafo_ids snapped_ej [(''TAZ_009'', ''TAZ_001'')]
      = ejecutar_optimizacion_rutas grafo_ids snapped_ej []"
    by (rule T1[THEN conjunct2, THEN conjunct1, THEN mp, OF b'])
  have k3: "dijkstra_ciclista grafo_ids (IntId 1) (IntId 9) = Some (Inr ([IntId 9], PInf))"
    by (rule T2[THEN conjunct2, THEN conjunct2, THEN conjunct1, THEN mp, OF c'])
  have k5: "ejecutar_optimizacion_rutas_r config_ruteo_por_defecto sp_ej [(1, 9)] red_ej
      = ejecutar_optimizacion_rutas_r config_ruteo_por_defecto sp_ej [] red_ej"
    by (rule T1[THEN conjunct2, THEN conjunct2, THEN conjunct2, THEN conjunct2,
        THEN conjunct1, THEN mp, OF disjI2[OF d], THEN conjunct2])
  have k2': "ejecutar_optimizacion_rutas grafo_ids snapped_ej [(''TAZ_009'', ''TAZ_001'')]
      = Some []"
    by (subst k2) simp
  have k5': "ejecutar_optimizacion_rutas_r config_ruteo_por_defecto sp_ej [(1, 9)] red_ej = []"
    by (subst k5) simp
  have b6: "snapped_ej ''TAZ_001'' = Some (IntId 1) \<and> snapped_ej ''TAZ_009'' = Some (IntId 9)
        \<and> \<not> py_not (Some (IntId 1)) \<and> \<not> py_not (Some (IntId 9))
        \<and> vecinos_son_nodos grafo_ids \<and> pesos_no_negativos grafo_ids
        \<and> IntId 1 \<in> set (nodos grafo_ids) \<and> IntId 9 \<notin> set (nodos grafo_ids)"
    using a b c by (intro conjI) simp_all
  note T6 = C3_extremo_ausente[where g = grafo_ids and origen = "IntId 1"
        and destino = "IntId 9" and nodos_snapped = snapped_ej and zo = "''TAZ_001''"
        and zd = "''TAZ_009''" and pares_od = "[]"]
  have k6: "ejecutar_optimizacion_rutas grafo_ids snapped_ej [(''TAZ_001'', ''TAZ_009'')]
      = map_option
          (\<lambda>resultados.
             \<lparr>r_origen = ''TAZ_001'', r_destino = ''TAZ_009'', ruta_optima = [IntId 9],
              impedancia_total = PInf, metricas = None\<rparr> # resultados)
          (ejecutar_optimizacion_rutas grafo_ids snapped_ej [])"
    by (rule T6[THEN conjunct2, THEN conjunct2, THEN conjunct2, THEN conjunct2,
        THEN conjunct2, THEN mp, OF b6])
  have k6': "ejecutar_optimizacion_rutas grafo_ids snapped_ej [(''TAZ_001'', ''TAZ_009'')]
       = Some [\<lparr>r_origen = ''TAZ_001'', r_destino = ''TAZ_009'', ruta_optima = [IntId 9],
                 impedancia_total = PInf, metricas = None\<rparr>]"
    by (subst k6) simp
  show ?thesis
    by (intro conjI a[THEN conjunct1] a[THEN conjunct2] k1 k2' k3 k5' k6' d
        b[THEN conjunct1] b[THEN conjunct2, THEN conjunct1]
        b[THEN conjunct2, THEN conjunct2, THEN conjunct1]
        b[THEN conjunct2, THEN conjunct2, THEN conjunct2]
        c[THEN conjunct1] c[THEN conjunct2, THEN conjunct1] c[THEN conjunct2, THEN conjunct2])
qed

text \<open>
  The claim as worded fails for an absent destination: node 9 is not in the graph, the
  search from node 1 does not fail, and the batch keeps the pair, with cost \<open>inf\<close> and
  empty metrics, before it processes the next pair.
\<close>

theorem C3_destino_ausente_counterexample:
  "IntId 9 \<notin> set (nodos grafo_ids)
   \<and> dijkstra_ciclista grafo_ids (IntId 1) (IntId 9) = Some (Inr ([IntId 9], PInf))
   \<and> ejecutar_optimizacion_rutas grafo_ids snapped_ej
        [(''TAZ_001'', ''TAZ_009''), (''TAZ_001'', ''TAZ_003'')]
       = Some [\<lparr>r_origen = ''TAZ_001'', r_destino = ''TAZ_009'', ruta_optima = [IntId 9],
                 impedancia_total = PInf, metricas = None\<rparr>,
               \<lparr>r_origen = ''TAZ_001'', r_destino = ''TAZ_003'',
                 ruta_optima = [IntId 1, IntId 3], impedancia_total = Fin 1,
                 metricas = Some \<lparr>distancia_total = 1000, num_segmentos = 1,
                    segmentos = [\<lparr>nodo_inicio = IntId 1, nodo_fin = IntId 3,
                                  impedancia = Fin 1\<rparr>]\<rparr>\<rparr>]"
proof -
  have a: "IntId 9 \<notin> set (nodos grafo_ids)" by (simp add: nodos_def grafo_ids_def)
  have b: "dijkstra_ciclista grafo_ids (IntId 1) (IntId 9) = Some (Inr ([IntId 9], PInf))"
    by code_simp
  have c: "ejecutar_optimizacion_rutas grafo_ids snapped_ej
        [(''TAZ_001'', ''TAZ_009''), (''TAZ_001'', ''TAZ_003'')]
       = Some [\<lparr>r_origen = ''TAZ_001'', r_destino = ''TAZ_009'', ruta_optima = [IntId 9],
                 impedancia_total = PInf, metricas = None\<rparr>,
               \<lparr>r_origen = ''TAZ_001'', r_destino = ''TAZ_003'',
                 ruta_optima = [IntId 1, IntId 3], impedancia_total = Fin 1,
                 metricas = Some \<lparr>distancia_total = 1000, num_segmentos = 1,
                    segmentos = [\<lparr>nodo_inicio = IntId 1, nodo_fin = IntId 3,
                                  impedancia = Fin 1\<rparr>]\<rparr>\<rparr>]"
    by code_simp
  show ?thesis using a b c by simp
qed

section \<open>Safe-infrastructure share of a route\<close>





section \<open>Scenario comparison\<close>

lemma foldl_np_add_Num: "foldl np_add (Num a) (map Num xs) = Num (a + sum_list xs)"
  by (induction xs arbitrary: a) (simp_all add: add.assoc)

lemma np_mean_Num: "xs \<noteq> [] \<Longrightarrow> np_mean (map Num xs) = Num (media xs)"
  by (simp add: np_mean_def media_def foldl_np_add_Num)


lemma np_NaN [simp]:
  "np_add x NaN = NaN" "np_sub NaN x = NaN" "np_sub x NaN = NaN"
  "np_mul x NaN = NaN" "np_div x NaN = NaN"
  by (cases x; simp add: np_sub_def)+

lemma distancias_totales_ok:
  "list_all (\<lambda>r. metricas r \<noteq> None) rs \<Longrightarrow>
     distancias_totales rs = Inr (map (\<lambda>r. Num (distancia_total (the (metricas r)))) rs)"
  by (induction rs) auto

lemma reduccion_finita:
  assumes "b \<noteq> 0"
  shows "np_mul (np_div (np_sub (Num b) (Num a)) (Num b)) (Num 100) = Num ((b - a) / b * 100)"
  using assms by (simp add: np_sub_def)

lemma reduccion_negativa:
  fixes a b :: real
  assumes "0 < b" and "b < a"
  shows "(b - a) / b * 100 < 0"
proof -
  have "(b - a) / b < 0" using assms by (simp add: divide_neg_pos)
  then have "(b - a) / b * 100 < 0 * 100" by (rule mult_strict_right_mono) simp
  then show ?thesis by simp
qed

lemma np_mean_costs:
  assumes "map impedancia_total rs = map Fin xs" and "xs \<noteq> []"
  shows "np_mean (map (\<lambda>r. of_cost (impedancia_total r)) rs) = Num (media xs)"
proof -
  have "map (\<lambda>r. of_cost (impedancia_total r)) rs = map of_cost (map impedancia_total rs)"
    by simp
  also have "\<dots> = map Num xs" by (simp add: assms(1) of_cost_def)
  finally show ?thesis using assms(2) by (simp add: np_mean_Num)
qed

lemma np_mean_reales:
  assumes "rs \<noteq> []"
  shows "np_mean (map (\<lambda>r. Num (impedancia_total_r r)) rs)
         = Num (media (map impedancia_total_r rs))"
proof -
  have "map (\<lambda>r. Num (impedancia_total_r r)) rs = map Num (map impedancia_total_r rs)"
    by simp
  then show ?thesis using assms np_mean_Num[of "map impedancia_total_r rs"]
    by (simp add: comp_def)
qed

text \<open>
  C5, as amended. For non-empty batches with finite impedances, present metrics and a
  baseline mean other than zero, \<open>comparar_escenarios\<close> of helper\_functions.py returns
  \<open>reduccion_impedancia = (mean_base - mean_opt) / mean_base * 100\<close>, not clamped: the
  value is negative whenever the optimized mean exceeds a positive baseline mean.
  \<open>_calcular_reduccion_impedancia\<close> of transit\_stats.py returns for non-empty batches
  \<open>max 0\<close> of that value when the baseline mean is positive, so it never returns a
  negative value, and 0 when the baseline mean is not positive.
\<close>

theorem C5_reduccion_impedancia:
  "(map impedancia_total escenario_base = map Fin bs
      \<and> map impedancia_total resultados = map Fin ps
      \<and> bs \<noteq> [] \<and> ps \<noteq> [] \<and> media bs \<noteq> 0
      \<and> list_all (\<lambda>r. metricas r \<noteq> None) escenario_base
      \<and> list_all (\<lambda>r. metricas r \<noteq> None) resultados
    \<longrightarrow> (\<exists>c. comparar_escenarios resultados escenario_base = Inr c
           \<and> reduccion_impedancia c = Num ((media bs - media ps) / media bs * 100)
           \<and> (0 < media bs \<and> media bs < media ps
                \<longrightarrow> (media bs - media ps) / media bs * 100 < 0)))
   \<and> (rb \<noteq> [] \<and> ro \<noteq> [] \<and> 0 < media (map impedancia_total_r rb)
    \<longrightarrow> calcular_reduccion_impedancia ro rb
          = Num (max 0 ((media (map impedancia_total_r rb) - media (map impedancia_total_r ro))
                          / media (map impedancia_total_r rb) * 100)))
   \<and> (rb \<noteq> [] \<and> ro \<noteq> [] \<and> media (map impedancia_total_r rb) \<le> 0
    \<longrightarrow> calcular_reduccion_impedancia ro rb = Num 0)"
proof (intro conjI impI)
  assume h: "map impedancia_total escenario_base = map Fin bs
      \<and> map impedancia_total resultados = map Fin ps
      \<and> bs \<noteq> [] \<and> ps \<noteq> [] \<and> media bs \<noteq> 0
      \<and> list_all (\<lambda>r. metricas r \<noteq> None) escenario_base
      \<and> list_all (\<lambda>r. metricas r \<noteq> None) resultados"
  from h have mb: "np_mean (map (\<lambda>r. of_cost (impedancia_total r)) escenario_base)
      = Num (media bs)" by (simp add: np_mean_costs)
  from h have mo: "np_mean (map (\<lambda>r. of_cost (impedancia_total r)) resultados)
      = Num (media ps)" by (simp add: np_mean_costs)
  from h have db: "distancias_totales escenario_base
      = Inr (map (\<lambda>r. Num (distancia_total (the (metricas r)))) escenario_base)"
    by (simp add: distancias_totales_ok)
  from h have dop: "distancias_totales resultados
      = Inr (map (\<lambda>r. Num (distancia_total (the (metricas r)))) resultados)"
    by (simp add: distancias_totales_ok)
  from h have nz: "media bs \<noteq> 0" by simp
  have neg: "0 < media bs \<and> media bs < media ps
                \<longrightarrow> (media bs - media ps) / media bs * 100 < 0"
    using reduccion_negativa[of "media bs" "media ps"] by blast
  show "\<exists>c. comparar_escenarios resultados escenario_base = Inr c
           \<and> reduccion_impedancia c = Num ((media bs - media ps) / media bs * 100)
           \<and> (0 < media bs \<and> media bs < media ps
                \<longrightarrow> (media bs - media ps) / media bs * 100 < 0)"
    using neg
    by (simp add: comparar_escenarios_def Let_def mb mo db dop reduccion_finita[OF nz])
next
  assume h: "rb \<noteq> [] \<and> ro \<noteq> [] \<and> 0 < media (map impedancia_total_r rb)"
  then have nz: "media (map impedancia_total_r rb) \<noteq> 0" by simp
  from h show "calcular_reduccion_impedancia ro rb
          = Num (max 0 ((media (map impedancia_total_r rb) - media (map impedancia_total_r ro))
                          / media (map impedancia_total_r rb) * 100))"
    by (simp add: calcular_reduccion_impedancia_def Let_def np_mean_reales
        reduccion_finita[OF nz] py_max0_def max_def)
next
  assume h: "rb \<noteq> [] \<and> ro \<noteq> [] \<and> media (map impedancia_total_r rb) \<le> 0"
  then show "calcular_reduccion_impedancia ro rb = Num 0"
    by (simp add: calcular_reduccion_impedancia_def Let_def np_mean_reales)
qed

text \<open>Instances: baseline mean 10 against optimized mean 20 and 5; baseline mean 0.\<close>

theorem C5_reduccion_impedancia_witness:
  "(map impedancia_total [res_h 10 500] = map Fin [10]
      \<and> map impedancia_total [res_h 20 1000] = map Fin [20]
      \<and> [10::real] \<noteq> [] \<and> [20::real] \<noteq> [] \<and> media [10] \<noteq> 0
      \<and> list_all (\<lambda>r. metricas r \<noteq> None) [res_h 10 500]
      \<and> list_all (\<lambda>r. metricas r \<noteq> None) [res_h 20 1000])
   \<and> (\<exists>c. comparar_escenarios [res_h 20 1000] [res_h 10 500] = Inr c
          \<and> reduccion_impedancia c = Num (- 100))
   \<and> (0 < media [10] \<and> media [10] < media [20])
   \<and> (media [10] - media [20]) / media [10] * 100 < 0
   \<and> ([res_r 10] \<noteq> [] \<and> [res_r 5] \<noteq> [] \<and> 0 < media (map impedancia_total_r [res_r 10]))
   \<and> calcular_reduccion_impedancia [res_r 5] [res_r 10] = Num 50
   \<and> ([res_r 0] \<noteq> [] \<and> media (map impedancia_total_r [res_r 0]) \<le> 0)
   \<and> calcular_reduccion_impedancia [res_r 5] [res_r 0] = Num 0"
proof -
  have m: "media [10] = 10" "media [20] = 20" by (simp_all add: media_def)
  have a: "map impedancia_total [res_h 10 500] = map Fin [10]
      \<and> map impedancia_total [res_h 20 1000] = map Fin [20]
      \<and> [10::real] \<noteq> [] \<and> [20::real] \<noteq> [] \<and> media [10] \<noteq> 0
      \<and> list_all (\<lambda>r. metricas r \<noteq> None) [res_h 10 500]
      \<and> list_all (\<lambda>r. metricas r \<noteq> None) [res_h 20 1000]"
    by (simp add: res_h_def m)
  have b: "0 < media [10] \<and> media [10] < media [20]" by (simp add: m)
  have c: "[res_r 10] \<noteq> [] \<and> [res_r 5] \<noteq> [] \<and> 0 < media (map impedancia_total_r [res_r 10])"
    by (simp add: res_r_def media_def)
  have d: "[res_r 0] \<noteq> [] \<and> [res_r 5] \<noteq> [] \<and> media (map impedancia_total_r [res_r 0]) \<le> 0"
    by (simp add: res_r_def media_def)
  note T1 = C5_reduccion_impedancia[where escenario_base = "[res_h 10 500]"
      and resultados = "[res_h 20 1000]" and bs = "[10]" and ps = "[20]"
      and rb = "[res_r 10]" and ro = "[res_r 5]"]
  note T2 = C5_reduccion_impedancia[where rb = "[res_r 0]" and ro = "[res_r 5]"]
  from T1[THEN conjunct1, THEN mp, OF a] obtain c0 where
    k1: "comparar_escenarios [res_h 20 1000] [res_h 10 500] = Inr c0"
    and k2: "reduccion_impedancia c0 = Num ((media [10] - media [20]) / media [10] * 100)"
    and k3: "0 < media [10] \<and> media [10] < media [20]
                \<longrightarrow> (media [10] - media [20]) / media [10] * 100 < 0"
    by blast
  have k2': "reduccion_impedancia c0 = Num (- 100)" using k2 by (simp add: m)
  have k4: "(media [10] - media [20]) / media [10] * 100 < 0" using k3 b by blast
  have k5: "calcular_reduccion_impedancia [res_r 5] [res_r 10] = Num 50"
    using T1[THEN conjunct2, THEN conjunct1, THEN mp, OF c]
    by (simp add: media_def res_r_def)
  have k6: "calcular_reduccion_impedancia [res_r 5] [res_r 0] = Num 0"
    by (rule T2[THEN conjunct2, THEN conjunct2, THEN mp, OF d])
  have e: "\<exists>c. comparar_escenarios [res_h 20 1000] [res_h 10 500] = Inr c
          \<and> reduccion_impedancia c = Num (- 100)"
    using k1 k2' by blast
  have d': "[res_r 0] \<noteq> [] \<and> media (map impedancia_total_r [res_r 0]) \<le> 0"
    using d by simp
  show ?thesis
    by (intro conjI a[THEN conjunct1] a[THEN conjunct2, THEN conjunct1]
        a[THEN conjunct2, THEN conjunct2, THEN conjunct1]
        a[THEN conjunct2, THEN conjunct2, THEN conjunct2, THEN conjunct1]
        a[THEN conjunct2, THEN conjunct2, THEN conjunct2, THEN conjunct2, THEN conjunct1]
        a[THEN conjunct2, THEN conjunct2, THEN conjunct2, THEN conjunct2, THEN conjunct2,
          THEN conjunct1]
        a[THEN conjunct2, THEN conjunct2, THEN conjunct2, THEN conjunct2, THEN conjunct2,
          THEN conjunct2]
        e b[THEN conjunct1] b[THEN conjunct2] k4 c[THEN conjunct1]
        c[THEN conjunct2, THEN conjunct1] c[THEN conjunct2, THEN conjunct2] k5
        d'[THEN conjunct1] d'[THEN conjunct2] k6)
qed

text \<open>
  The claim as worded fails for \<open>_calcular_reduccion_impedancia\<close>: with baseline mean 10
  and optimized mean 20 the formula gives -100, and the function returns 0.
\<close>

theorem C5_reduccion_recortada_counterexample:
  "[res_r 10] \<noteq> [] \<and> [res_r 20] \<noteq> []
   \<and> media (map impedancia_total_r [res_r 10]) < media (map impedancia_total_r [res_r 20])
   \<and> (media (map impedancia_total_r [res_r 10]) - media (map impedancia_total_r [res_r 20]))
        / media (map impedancia_total_r [res_r 10]) * 100 = - 100
   \<and> calcular_reduccion_impedancia [res_r 20] [res_r 10] = Num 0"
  by (simp add: calcular_reduccion_impedancia_def Let_def np_mean_def np_sub_def py_max0_def
      res_r_def media_def)




section \<open>Priority corridors\<close>






















text \<open>
  A frame whose entries lack the key \<open>arco\<close>, as the segment dictionaries of the route
  metrics do, is outside the statement below: the aggregation raises \<open>KeyError\<close> on it.
\<close>

lemma mapa_sin_arco:
  "generar_mapa_corredores_prioritarios
     [\<lparr>segmentos_detalle =
         [\<lparr>arco = None, impedancia_d = None, tipo_infraestructura_d = Some 3\<rparr>],
       fila_A = Some (1::nat), fila_B = Some 2, geometry = Some ''L12''\<rparr>]
   = Inl KeyError"
  by (simp add: generar_mapa_corredores_prioritarios_def contar_segmento_def)




end
